theory Spec2Isabelle
  imports Main "HOL-Library.Word" "HOL-Library.Sublist"
begin

section \<open>Values shared by both pipelines\<close>

text \<open>
  A Go \<open>error\<close> value is modelled by the text its \<open>Error()\<close> method returns, together
  with the one dynamic property the code tests, \<open>errors.Is(err, os.ErrNotExist)\<close>.
  \<open>fmt.Errorf\<close> without \<open>%w\<close> always builds a \<open>GoError\<close>; the nil error is
  \<open>None\<close> of \<open>error option\<close>.
\<close>

datatype error = GoError string | NotExistError string

fun errorString :: "error \<Rightarrow> string" where
  "errorString (GoError m) = m"
| "errorString (NotExistError m) = m"

fun isNotExist :: "error \<Rightarrow> bool" where
  "isNotExist (GoError m) = False"
| "isNotExist (NotExistError m) = True"

text \<open>
  Go's \<open>int\<close> on a 64-bit platform and \<open>time.Duration\<close> (an \<open>int64\<close> count of
  nanoseconds) are 64-bit words read in two's complement by \<open>sint\<close>; \<open>*\<close> wraps.
\<close>

type_synonym go_int = "64 word"
type_synonym duration = "64 word"

definition time_Second :: duration where
  "time_Second = 1000000000"

text \<open>The verb \<open>%d\<close>: a decimal numeral, with a minus sign for a negative number.\<close>

function show_nat :: "nat \<Rightarrow> string" where
  "show_nat n =
     (if n < 10 then [''0123456789'' ! n]
      else show_nat (n div 10) @ [''0123456789'' ! (n mod 10)])"
  by pat_completeness auto
termination
  by (relation "measure id") auto

definition show_int :: "int \<Rightarrow> string" where
  "show_int i = (if i < 0 then CHR ''-'' # show_nat (nat (- i)) else show_nat (nat i))"

text \<open>\<open>strings.Contains s sub\<close>.\<close>

fun contains :: "string \<Rightarrow> string \<Rightarrow> bool" where
  "contains [] sub = (sub = [])"
| "contains (c # cs) sub = (prefix sub (c # cs) \<or> contains cs sub)"

section \<open>The outside world\<close>

text \<open>
  The structs of the remote pipeline. \<open>etherscanRpcApiResponse\<close> and
  \<open>etherscanContractMetadata\<close> repeat field names of other structs, so their fields
  carry a prefix.
\<close>

record etherscanContract =
  Name :: string
  DeployedAddress :: string
  PredeployAddress :: string
  Abi :: string
  Bytecode :: string

record etherscanApiResponse =
  Status :: string
  Message :: string
  Result :: string

record etherscanRpcApiResponse =
  JsonRpc :: string
  Id :: go_int
  rpc_Result :: string

record etherscanContractMetadata =
  es_Name :: string
  es_DeployedBin :: string
  es_Package :: string

record localContractMetadata =
  lc_Name :: string
  lc_StorageLayout :: string
  lc_DeployedBin :: string
  lc_Package :: string
  lc_DeployedSourceMap :: string

datatype tmpl_data = EtherscanData etherscanContractMetadata | LocalData localContractMetadata

text \<open>An argument of \<open>log.Printf\<close>, kept unformatted.\<close>

datatype arg = S string | D duration | E error

text \<open>
  Every call that leaves the program is an event, appended to the history in the order
  the program makes it. The history is the whole state the model threads: what the
  outside answers may depend on everything the program did before.
\<close>

datatype event =
    ReadJSONFile string
  | MkTempArtifactsDir
  | RemoveAll string
  | Walk string
  | ReadFile string
  | HttpGet string
  | Sleep duration
  | WriteContractArtifacts string string string string
  | GenContractBindings string string string string
  | OpenFile string
  | Execute string tmpl_data
  | CloseFile string
  | Printf string "arg list"

type_synonym history = "event list"

text \<open>
  \<open>foundry.Artifact\<close> and \<open>contractsData\<close> are declared outside the files at hand;
  the records hold the fields the code reads. The type of the storage layout
  (\<open>solc.StorageLayout\<close>) is a parameter \<open>'sl\<close>.
\<close>

record 'sl forgeArtifact =
  art_Abi :: string
  Bytecode_Object :: "8 word list"
  DeployedBytecode_Object :: "8 word list"
  DeployedBytecode_SourceMap :: string
  StorageLayout :: 'sl

record contractsData =
  Local :: "string list"
  Etherscan :: "etherscanContract list"

text \<open>
  What the outside answers: the standard library and the functions of the package that
  are defined in other files (\<open>readJSONFile\<close>, \<open>mkTempArtifactsDir\<close>,
  \<open>writeContractArtifacts\<close>, \<open>genContractBindings\<close>, \<open>ast.CanonicalizeASTIDs\<close>)
  are parameters. A call with an effect receives the history so far.
  \<^item> \<open>http_Get\<close>: \<open>Inl\<close> when \<open>http.Get\<close> fails, otherwise the outcome of
    \<open>io.ReadAll\<close> on the body;
  \<^item> \<open>os_ReadFile\<close>: the bytes read and the error, as \<open>os.ReadFile\<close> returns both;
  \<^item> \<open>filepath_Walk\<close>: the visits \<open>filepath.Walk\<close> makes, in its lexical order, each
    with the error it hands to the callback, for a callback that never stops the walk;
  \<^item> \<open>json_Marshal\<close> and the three \<open>json_Unmarshal\<close>: \<open>Inl\<close> for the error of
    \<open>encoding/json\<close>;
  \<^item> \<open>path_Join\<close> stands for \<open>path.Join\<close> and \<open>filepath.Join\<close>, \<open>strconv_Quote\<close>
    for the verb \<open>%q\<close>, \<open>strings_ToLower\<close> for \<open>strings.ToLower\<close>, which lowers every
    Unicode upper-case letter.
\<close>

record 'sl env =
  http_Get :: "history \<Rightarrow> string \<Rightarrow> error + (error + string)"
  json_Unmarshal_api :: "string \<Rightarrow> error + etherscanApiResponse"
  json_Unmarshal_rpc :: "string \<Rightarrow> error + etherscanRpcApiResponse"
  json_Unmarshal_artifact :: "string \<Rightarrow> error + 'sl forgeArtifact"
  ext_readJSONFile :: "history \<Rightarrow> string \<Rightarrow> contractsData \<times> error option"
  ext_mkTempArtifactsDir :: "history \<Rightarrow> string \<times> error option"
  os_RemoveAll :: "history \<Rightarrow> string \<Rightarrow> error option"
  filepath_Walk :: "history \<Rightarrow> string \<Rightarrow> (string \<times> error option) list"
  os_ReadFile :: "history \<Rightarrow> string \<Rightarrow> string \<times> error option"
  ext_writeContractArtifacts ::
    "history \<Rightarrow> string \<Rightarrow> string \<Rightarrow> string \<Rightarrow> string \<Rightarrow> error + (string \<times> string)"
  ext_genContractBindings ::
    "history \<Rightarrow> string \<Rightarrow> string \<Rightarrow> string \<Rightarrow> string \<Rightarrow> error option"
  ast_CanonicalizeASTIDs :: "'sl \<Rightarrow> string \<Rightarrow> 'sl"
  json_Marshal :: "'sl \<Rightarrow> error + string"
  os_OpenFile :: "history \<Rightarrow> string \<Rightarrow> error option"
  template_Execute :: "history \<Rightarrow> string \<Rightarrow> tmpl_data \<Rightarrow> error option"
  path_Join :: "string list \<Rightarrow> string"
  strconv_Quote :: "string \<Rightarrow> string"
  strings_ToLower :: "string \<Rightarrow> string"

section \<open>Remote source resolver\<close>

definition etherscanGetAbiURLFormat :: "string \<Rightarrow> string \<Rightarrow> string" where
  "etherscanGetAbiURLFormat address apikey =
     ''https://api.etherscan.io/api?module=contract&action=getabi&address='' @ address
       @ ''&apikey='' @ apikey"

definition etherscanGetBytecodeURLFormat :: "string \<Rightarrow> string \<Rightarrow> string" where
  "etherscanGetBytecodeURLFormat address apikey =
     ''https://api.etherscan.io/api?module=proxy&action=eth_getCode&address='' @ address
       @ ''&tag=latest&apikey='' @ apikey"

definition readEtherscanContractsList ::
  "'sl env \<Rightarrow> string \<Rightarrow> history \<Rightarrow> (etherscanContract list \<times> error option) \<times> history" where
  "readEtherscanContractsList env filePath h =
     (case ext_readJSONFile env h filePath of
        (data, err) \<Rightarrow> ((Etherscan data, err), h @ [ReadJSONFile filePath]))"

definition fetchEtherscanData ::
  "'sl env \<Rightarrow> string \<Rightarrow> history \<Rightarrow> (error + string) \<times> history" where
  "fetchEtherscanData env url h =
     (case http_Get env h url of
        Inl err \<Rightarrow> (Inl err, h @ [HttpGet url])
      | Inr read \<Rightarrow>
          (case read of
             Inl err \<Rightarrow> (Inl err, h @ [HttpGet url])
           | Inr body \<Rightarrow> (Inr body, h @ [HttpGet url])))"

text \<open>The verb \<open>%v\<close> on the response struct prints its fields between braces.\<close>

definition show_apiResponse :: "etherscanApiResponse \<Rightarrow> string" where
  "show_apiResponse r = ''{'' @ Status r @ '' '' @ Message r @ '' '' @ Result r @ ''}''"

lemma sint_succ_below:
  fixes retries maxRetries :: go_int
  assumes "sint retries < sint maxRetries"
  shows "sint (retries + 1) = sint retries + 1"
proof -
  have "sint maxRetries < 2 ^ 63"
    using sint_lt [of maxRetries] by simp
  moreover have "- (2 ^ 63) \<le> sint retries"
    using sint_ge [of retries] by simp
  ultimately have "- (2 ^ 63) \<le> sint retries + 1 \<and> sint retries + 1 < 2 ^ 63"
    using assms by linarith
  then show ?thesis
    by (simp add: sint_word_add signed_take_bit_int_eq_self_iff)
qed

text \<open>
  The loop of \<open>fetchEtherscanAbi\<close>, with the counter \<open>retries\<close> as an argument. The
  counter is compared as a signed number and never wraps: it is incremented only below
  \<open>maxRetries\<close>.
\<close>

function fetchEtherscanAbi_loop ::
  "'sl env \<Rightarrow> string \<Rightarrow> go_int \<Rightarrow> duration \<Rightarrow> go_int \<Rightarrow> history \<Rightarrow> (error + string) \<times> history"
  where
  "fetchEtherscanAbi_loop env url maxRetries retryDelay retries h =
     (if sint retries < sint maxRetries then
        (case fetchEtherscanData env url h of
           (Inl err, h1) \<Rightarrow> (Inl err, h1)
         | (Inr body, h1) \<Rightarrow>
             (case json_Unmarshal_api env body of
                Inl err \<Rightarrow>
                  (Inl err,
                   h1 @ [Printf ''Failed to unmarshal as etherscanApiResponse: %v'' [E err]])
              | Inr apiResponse \<Rightarrow>
                  if Message apiResponse = ''NOTOK''
                     \<and> Result apiResponse = ''Max rate limit reached''
                  then fetchEtherscanAbi_loop env url maxRetries retryDelay (retries + 1)
                         (h1 @ [Printf ''Reached API rate limit, waiting %v and trying again''
                                  [D retryDelay],
                                Sleep retryDelay])
                  else if Message apiResponse \<noteq> ''OK''
                  then (Inl (GoError (''There was an issue with the Etherscan request to ''
                               @ url @ '', received response: ''
                               @ show_apiResponse apiResponse)), h1)
                  else (Inr (Result apiResponse), h1)))
      else (Inl (GoError (''Failed to fetch ABI after '' @ show_int (sint maxRetries)
                   @ '' retries'')), h))"
  by pat_completeness auto

termination
  by (relation "measure (\<lambda>(env, url, maxRetries, retryDelay, retries, h).
                  nat (sint maxRetries - sint retries))")
     (auto simp: sint_succ_below)

declare fetchEtherscanAbi_loop.simps [simp del]

definition fetchEtherscanAbi ::
  "'sl env \<Rightarrow> string \<Rightarrow> go_int \<Rightarrow> go_int \<Rightarrow> history \<Rightarrow> (error + string) \<times> history" where
  "fetchEtherscanAbi env url apiMaxRetries apiRetryDelay h =
     fetchEtherscanAbi_loop env url apiMaxRetries (apiRetryDelay * time_Second) 0 h"

definition fetchEtherscanBytecode ::
  "'sl env \<Rightarrow> string \<Rightarrow> history \<Rightarrow> (error + string) \<times> history" where
  "fetchEtherscanBytecode env url h =
     (case fetchEtherscanData env url h of
        (Inl err, h1) \<Rightarrow> (Inl err, h1)
      | (Inr body, h1) \<Rightarrow>
          (case json_Unmarshal_rpc env body of
             Inl err \<Rightarrow>
               (Inl err,
                h1 @ [Printf ''Failed to unmarshal as etherscanRpcApiResponse: %v'' [E err]])
           | Inr rpcResponse \<Rightarrow> (Inr (rpc_Result rpcResponse), h1)))"

section \<open>Local source resolver\<close>

subsection \<open>Strings and paths\<close>

definition hasSuffix :: "string \<Rightarrow> string \<Rightarrow> bool" where
  "hasSuffix s suf = suffix suf s"

definition trimSuffix :: "string \<Rightarrow> string \<Rightarrow> string" where
  "trimSuffix s suf = (if hasSuffix s suf then take (length s - length suf) s else s)"

text \<open>
  \<open>filepath.Base\<close> on a Unix path: the empty path is \<open>.\<close>, trailing separators are
  dropped, the last element is what follows the last separator, and a path of
  separators only is \<open>/\<close>.
\<close>

definition filepath_Base :: "string \<Rightarrow> string" where
  "filepath_Base path =
     (if path = [] then ''.''
      else let stripped = rev (dropWhile (\<lambda>c. c = CHR ''/'') (rev path));
               element = rev (takeWhile (\<lambda>c. c \<noteq> CHR ''/'') (rev stripped))
           in if element = [] then ''/'' else element)"

text \<open>
  The regular expression \<open>\.\d+\.\d+\.\d+\<close>. A digit is never a dot, so the greedy
  \<open>\d+\<close> takes the whole run of digits and there is nothing to backtrack to.
  \<open>matchVersion s\<close> is what follows the match when the expression matches at the start
  of \<open>s\<close>; \<open>replaceVersion\<close> is \<open>ReplaceAllString\<close> with the empty replacement:
  the leftmost match is removed and the scan goes on behind it.
\<close>

definition isDigit :: "char \<Rightarrow> bool" where
  "isDigit c = (c \<in> set ''0123456789'')"

fun dot :: "string \<Rightarrow> string option" where
  "dot [] = None"
| "dot (c # cs) = (if c = CHR ''.'' then Some cs else None)"

definition digits :: "string \<Rightarrow> string option" where
  "digits s = (if takeWhile isDigit s = [] then None else Some (dropWhile isDigit s))"

definition matchVersion :: "string \<Rightarrow> string option" where
  "matchVersion s =
     Option.bind (dot s) (\<lambda>s1. Option.bind (digits s1) (\<lambda>s2.
     Option.bind (dot s2) (\<lambda>s3. Option.bind (digits s3) (\<lambda>s4.
     Option.bind (dot s4) digits))))"

lemma dot_length: "dot s = Some r \<Longrightarrow> length r < length s"
  by (cases s) (auto split: if_splits)

lemma digits_length: "digits s = Some r \<Longrightarrow> length r \<le> length s"
  by (auto simp: digits_def length_dropWhile_le split: if_splits)

lemma matchVersion_length: "matchVersion s = Some r \<Longrightarrow> length r < length s"
  by (fastforce simp: matchVersion_def bind_eq_Some_conv
        dest: dot_length digits_length)

function replaceVersion :: "string \<Rightarrow> string" where
  "replaceVersion [] = []"
| "replaceVersion (c # cs) =
     (case matchVersion (c # cs) of
        Some rest \<Rightarrow> replaceVersion rest
      | None \<Rightarrow> c # replaceVersion cs)"
  by pat_completeness auto
termination
  by (relation "measure length") (auto dest: matchVersion_length)

text \<open>\<open>strings.Split s ","\<close>: the empty string splits into one empty string.\<close>

fun split_comma :: "string \<Rightarrow> string list" where
  "split_comma [] = [[]]"
| "split_comma (c # cs) =
     (if c = CHR '','' then [] # split_comma cs
      else (case split_comma cs of
              [] \<Rightarrow> [[c]]
            | w # ws \<Rightarrow> (c # w) # ws))"

text \<open>\<open>hexutil.Bytes.String\<close>: \<open>0x\<close> and two lower-case hex digits for each byte.\<close>

definition hexByte :: "8 word \<Rightarrow> string" where
  "hexByte b = [''0123456789abcdef'' ! (unat b div 16), ''0123456789abcdef'' ! (unat b mod 16)]"

definition hexutil_String :: "8 word list \<Rightarrow> string" where
  "hexutil_String bs = ''0x'' @ concat (map hexByte bs)"

text \<open>\<open>strings.Replace s "\"" "\\\"" (-1)\<close>: a backslash before every double quote.\<close>

definition escapeQuotes :: "string \<Rightarrow> string" where
  "escapeQuotes s = concat (map (\<lambda>c. if c = CHR 0x22 then [CHR 0x5C, CHR 0x22] else [c]) s)"

subsection \<open>The artifact path index\<close>

definition readLocalContractList ::
  "'sl env \<Rightarrow> string \<Rightarrow> history \<Rightarrow> (string list \<times> error option) \<times> history" where
  "readLocalContractList env filePath h =
     (case ext_readJSONFile env h filePath of
        (data, err) \<Rightarrow> ((Local data, err), h @ [ReadJSONFile filePath]))"

text \<open>The callback handed to \<open>filepath.Walk\<close>, with the map it closes over as an argument.\<close>

definition walkFn ::
  "(string \<rightharpoonup> string) \<Rightarrow> string \<Rightarrow> error option \<Rightarrow> (string \<rightharpoonup> string) \<times> error option" where
  "walkFn artifactPaths path err =
     (case err of
        Some e \<Rightarrow> (artifactPaths, Some e)
      | None \<Rightarrow>
          if hasSuffix path ''.json'' then
            (let base = filepath_Base path;
                 name = trimSuffix base ''.json'';
                 sanitized = replaceVersion name
             in if artifactPaths sanitized = None
                then (artifactPaths(sanitized \<mapsto> path), None)
                else (artifactPaths, None))
          else (artifactPaths, None))"

text \<open>\<open>filepath.Walk\<close> calls the callback visit by visit and stops at its first error.\<close>

fun walk ::
  "(string \<rightharpoonup> string) \<Rightarrow> (string \<times> error option) list \<Rightarrow> (string \<rightharpoonup> string) \<times> error option"
  where
  "walk artifactPaths [] = (artifactPaths, None)"
| "walk artifactPaths ((path, err) # visits) =
     (case walkFn artifactPaths path err of
        (artifactPaths', Some e) \<Rightarrow> (artifactPaths', Some e)
      | (artifactPaths', None) \<Rightarrow> walk artifactPaths' visits)"

definition getContractArtifactPaths ::
  "'sl env \<Rightarrow> string \<Rightarrow> history \<Rightarrow> ((string \<rightharpoonup> string) \<times> error option) \<times> history" where
  "getContractArtifactPaths env forgeArtifactsPath h =
     (walk Map.empty (filepath_Walk env h forgeArtifactsPath), h @ [Walk forgeArtifactsPath])"

subsection \<open>Reading an artifact\<close>

text \<open>
  The tail of \<open>readForgeArtifact\<close>: the log line and \<open>json.Unmarshal\<close>. It runs on
  whatever bytes the last \<open>os.ReadFile\<close> returned, also after a read error that is
  not \<open>os.ErrNotExist\<close>.
\<close>

definition parseForgeArtifact ::
  "'sl env \<Rightarrow> string \<Rightarrow> string \<Rightarrow> string \<Rightarrow> history
     \<Rightarrow> (error + 'sl forgeArtifact) \<times> history" where
  "parseForgeArtifact env contractName contractArtifactPath forgeArtifactRaw h =
     (case json_Unmarshal_artifact env forgeArtifactRaw of
        Inl err \<Rightarrow>
          (Inl (GoError (''Failed to parse forge artifact of '' @ strconv_Quote env contractName
                  @ '': '' @ errorString err @ [CHR 0x0A])),
           h @ [Printf (''Using forge-artifact %s'' @ [CHR 0x0A]) [S contractArtifactPath]])
      | Inr forgeArtifact \<Rightarrow>
          (Inr forgeArtifact,
           h @ [Printf (''Using forge-artifact %s'' @ [CHR 0x0A]) [S contractArtifactPath]]))"

text \<open>A Go map yields the zero value, the empty string, for a key it does not hold.\<close>

definition lookupPath :: "(string \<rightharpoonup> string) \<Rightarrow> string \<Rightarrow> string" where
  "lookupPath contractArtifactPaths contractName =
     (case contractArtifactPaths contractName of None \<Rightarrow> [] | Some p \<Rightarrow> p)"

definition readForgeArtifact ::
  "'sl env \<Rightarrow> string \<Rightarrow> string \<Rightarrow> (string \<rightharpoonup> string) \<Rightarrow> history
     \<Rightarrow> (error + 'sl forgeArtifact) \<times> history" where
  "readForgeArtifact env forgeArtifactsPath contractName contractArtifactPaths h =
     (let contractArtifactPath =
            path_Join env [forgeArtifactsPath, contractName @ ''.sol'', contractName @ ''.json''];
          h1 = h @ [ReadFile contractArtifactPath]
      in case os_ReadFile env h contractArtifactPath of
           (forgeArtifactRaw, None) \<Rightarrow>
             parseForgeArtifact env contractName contractArtifactPath forgeArtifactRaw h1
         | (forgeArtifactRaw, Some err) \<Rightarrow>
             if isNotExist err then
               (let fallback = lookupPath contractArtifactPaths contractName;
                    h2 = h1 @ [Printf (''Cannot find forge-artifact for %s at standard path %s, trying %s''
                                        @ [CHR 0x0A])
                                 [S contractName, S contractArtifactPath, S fallback]];
                    h3 = h2 @ [ReadFile fallback]
                in case os_ReadFile env h2 fallback of
                     (forgeArtifactRaw', None) \<Rightarrow>
                       parseForgeArtifact env contractName fallback forgeArtifactRaw' h3
                   | (forgeArtifactRaw', Some err') \<Rightarrow>
                       if isNotExist err' then
                         (Inl (GoError (''Cannot find forge-artifact of ''
                                 @ strconv_Quote env contractName @ [CHR 0x0A])), h3)
                       else parseForgeArtifact env contractName fallback forgeArtifactRaw' h3)
             else parseForgeArtifact env contractName contractArtifactPath forgeArtifactRaw h1)"

subsection \<open>Storage layout and source map\<close>

text \<open>
  The three results in the source's order: deployed source map, canonical storage
  layout, error.
\<close>

definition canonicalizeStorageLayout ::
  "'sl env \<Rightarrow> 'sl forgeArtifact \<Rightarrow> string \<Rightarrow> string set \<Rightarrow> string
     \<Rightarrow> string \<times> string \<times> error option" where
  "canonicalizeStorageLayout env forgeArtifact monorepoBasePath sourceMapsSet contractName =
     (let artifactStorageStruct = StorageLayout forgeArtifact;
          canonicalStorageStruct = ast_CanonicalizeASTIDs env artifactStorageStruct monorepoBasePath
      in case json_Marshal env canonicalStorageStruct of
           Inl err \<Rightarrow>
             ([], [], Some (GoError (''Error marshaling canonical storage: '' @ errorString err)))
         | Inr canonicalStorageJson \<Rightarrow>
             (let canonicalStorageStr = escapeQuotes canonicalStorageJson;
                  deployedSourceMap =
                    (if contractName \<in> sourceMapsSet
                     then DeployedBytecode_SourceMap forgeArtifact else [])
              in (deployedSourceMap, canonicalStorageStr, None)))"

subsection \<open>Writing the metadata file\<close>

text \<open>
  \<open>writeLocalContractMetadata\<close> and \<open>writeEtherscanContractMetadata\<close> have the same
  body and differ in the type of the metadata; \<open>writeMetadata\<close> is that body. The
  deferred \<open>Close\<close> runs when the function returns; on a file that failed to open it
  does nothing.
\<close>

definition writeMetadata ::
  "'sl env \<Rightarrow> tmpl_data \<Rightarrow> string \<Rightarrow> string \<Rightarrow> history \<Rightarrow> error option \<times> history" where
  "writeMetadata env contractMetaData metadataOutputDir contractName h =
     (let metaDataFilePath =
            path_Join env [metadataOutputDir, strings_ToLower env contractName @ ''_more.go''];
          h1 = h @ [OpenFile metaDataFilePath]
      in case os_OpenFile env h metaDataFilePath of
           Some err \<Rightarrow>
             (Some (GoError (''Error opening '' @ contractName @ [CHR 0x27]
                      @ ''s metadata file at '' @ metaDataFilePath @ '': '' @ errorString err)),
              h1)
         | None \<Rightarrow>
             (case template_Execute env h1 metaDataFilePath contractMetaData of
                Some err \<Rightarrow>
                  (Some (GoError (''Error writing '' @ contractName @ [CHR 0x27]
                           @ ''s contract metadata at '' @ metaDataFilePath @ '': ''
                           @ errorString err)),
                   h1 @ [Execute metaDataFilePath contractMetaData, CloseFile metaDataFilePath])
              | None \<Rightarrow>
                  (None,
                   h1 @ [Execute metaDataFilePath contractMetaData,
                         Printf (''Wrote %s'' @ [CHR 0x27] @ ''s contract metadata to: %s'')
                           [S contractName, S metaDataFilePath],
                         CloseFile metaDataFilePath])))"

definition writeLocalContractMetadata ::
  "'sl env \<Rightarrow> localContractMetadata \<Rightarrow> string \<Rightarrow> string \<Rightarrow> history
     \<Rightarrow> error option \<times> history" where
  "writeLocalContractMetadata env contractMetaData metadataOutputDir contractName h =
     writeMetadata env (LocalData contractMetaData) metadataOutputDir contractName h"

definition writeEtherscanContractMetadata ::
  "'sl env \<Rightarrow> etherscanContractMetadata \<Rightarrow> string \<Rightarrow> string \<Rightarrow> history
     \<Rightarrow> error option \<times> history" where
  "writeEtherscanContractMetadata env contractMetaData metadataOutputDir contractName h =
     writeMetadata env (EtherscanData contractMetaData) metadataOutputDir contractName h"

section \<open>The two pipelines\<close>

definition mkTempArtifactsDir ::
  "'sl env \<Rightarrow> history \<Rightarrow> (string \<times> error option) \<times> history" where
  "mkTempArtifactsDir env h = (ext_mkTempArtifactsDir env h, h @ [MkTempArtifactsDir])"

definition writeContractArtifacts ::
  "'sl env \<Rightarrow> string \<Rightarrow> string \<Rightarrow> string \<Rightarrow> string \<Rightarrow> history
     \<Rightarrow> (error + (string \<times> string)) \<times> history" where
  "writeContractArtifacts env tempDirPath contractName abi bytecode h =
     (ext_writeContractArtifacts env h tempDirPath contractName abi bytecode,
      h @ [WriteContractArtifacts tempDirPath contractName abi bytecode])"

definition genContractBindings ::
  "'sl env \<Rightarrow> string \<Rightarrow> string \<Rightarrow> string \<Rightarrow> string \<Rightarrow> history \<Rightarrow> error option \<times> history"
  where
  "genContractBindings env abiFilePath bytecodeFilePath goPackageName contractName h =
     (ext_genContractBindings env h abiFilePath bytecodeFilePath goPackageName contractName,
      h @ [GenContractBindings abiFilePath bytecodeFilePath goPackageName contractName])"

text \<open>
  The deferred function of both pipelines: it runs at every return that follows the
  \<open>defer\<close> statement and leaves the returned error as it is.
\<close>

definition removeTempArtifactsDir :: "'sl env \<Rightarrow> string \<Rightarrow> history \<Rightarrow> history" where
  "removeTempArtifactsDir env tempArtifactsDir h =
     (case os_RemoveAll env h tempArtifactsDir of
        Some err \<Rightarrow>
          h @ [RemoveAll tempArtifactsDir,
               Printf ''Error removing temporary directory %s: %v'' [S tempArtifactsDir, E err]]
      | None \<Rightarrow>
          h @ [RemoveAll tempArtifactsDir,
               Printf ''Successfully removed temporary directory'' []])"

subsection \<open>Local contracts\<close>

text \<open>The body of the loop of \<open>genLocalBindings\<close>, for one contract name.\<close>

definition genLocalBindings_contract ::
  "'sl env \<Rightarrow> string \<Rightarrow> string \<Rightarrow> string \<Rightarrow> string \<Rightarrow> string \<Rightarrow> (string \<rightharpoonup> string)
     \<Rightarrow> string set \<Rightarrow> string \<Rightarrow> history \<Rightarrow> error option \<times> history" where
  "genLocalBindings_contract env forgeArtifactsPath goPackageName monorepoBasePath
       metadataOutputDir tempArtifactsDir contractArtifactPaths sourceMapsSet contractName h =
     (case readForgeArtifact env forgeArtifactsPath contractName contractArtifactPaths
             (h @ [Printf ''Generating bindings and metadata for local contract: %s''
                     [S contractName]]) of
        (Inl err, h1) \<Rightarrow> (Some err, h1)
      | (Inr forgeArtifact, h1) \<Rightarrow>
          (case writeContractArtifacts env tempArtifactsDir contractName (art_Abi forgeArtifact)
                  (hexutil_String (Bytecode_Object forgeArtifact)) h1 of
             (Inl err, h2) \<Rightarrow> (Some err, h2)
           | (Inr (abiFilePath, bytecodeFilePath), h2) \<Rightarrow>
               (case genContractBindings env abiFilePath bytecodeFilePath goPackageName
                       contractName h2 of
                  (Some err, h3) \<Rightarrow> (Some err, h3)
                | (None, h3) \<Rightarrow>
                    (case canonicalizeStorageLayout env forgeArtifact monorepoBasePath
                            sourceMapsSet contractName of
                       (deployedSourceMap, canonicalStorageStr, err) \<Rightarrow>
                         writeLocalContractMetadata env
                           \<lparr>lc_Name = contractName,
                            lc_StorageLayout = canonicalStorageStr,
                            lc_DeployedBin = hexutil_String (DeployedBytecode_Object forgeArtifact),
                            lc_Package = goPackageName,
                            lc_DeployedSourceMap = deployedSourceMap\<rparr>
                           metadataOutputDir contractName h3))))"

fun genLocalBindings_loop ::
  "'sl env \<Rightarrow> string \<Rightarrow> string \<Rightarrow> string \<Rightarrow> string \<Rightarrow> string \<Rightarrow> (string \<rightharpoonup> string)
     \<Rightarrow> string set \<Rightarrow> string list \<Rightarrow> history \<Rightarrow> error option \<times> history" where
  "genLocalBindings_loop env forgeArtifactsPath goPackageName monorepoBasePath
       metadataOutputDir tempArtifactsDir contractArtifactPaths sourceMapsSet [] h = (None, h)"
| "genLocalBindings_loop env forgeArtifactsPath goPackageName monorepoBasePath
       metadataOutputDir tempArtifactsDir contractArtifactPaths sourceMapsSet
       (contractName # contracts) h =
     (case genLocalBindings_contract env forgeArtifactsPath goPackageName monorepoBasePath
             metadataOutputDir tempArtifactsDir contractArtifactPaths sourceMapsSet
             contractName h of
        (Some err, h') \<Rightarrow> (Some err, h')
      | (None, h') \<Rightarrow>
          genLocalBindings_loop env forgeArtifactsPath goPackageName monorepoBasePath
            metadataOutputDir tempArtifactsDir contractArtifactPaths sourceMapsSet contracts h')"

text \<open>What \<open>genLocalBindings\<close> does between the \<open>defer\<close> statement and its return.\<close>

definition genLocalBindings_run ::
  "'sl env \<Rightarrow> string \<Rightarrow> string \<Rightarrow> string \<Rightarrow> string \<Rightarrow> string \<Rightarrow> string \<Rightarrow> string list
     \<Rightarrow> history \<Rightarrow> error option \<times> history" where
  "genLocalBindings_run env sourceMapsListStr forgeArtifactsPath goPackageName monorepoBasePath
       metadataOutputDir tempArtifactsDir contracts h =
     (case getContractArtifactPaths env forgeArtifactsPath h of
        ((contractArtifactPaths, Some err), h1) \<Rightarrow> (Some err, h1)
      | ((contractArtifactPaths, None), h1) \<Rightarrow>
          (let sourceMapsList = split_comma sourceMapsListStr;
               sourceMapsSet = set sourceMapsList
           in genLocalBindings_loop env forgeArtifactsPath goPackageName monorepoBasePath
                metadataOutputDir tempArtifactsDir contractArtifactPaths sourceMapsSet
                contracts h1))"

definition genLocalBindings ::
  "'sl env \<Rightarrow> string \<Rightarrow> string \<Rightarrow> string \<Rightarrow> string \<Rightarrow> string \<Rightarrow> string \<Rightarrow> history
     \<Rightarrow> error option \<times> history" where
  "genLocalBindings env contractListFilePath sourceMapsListStr forgeArtifactsPath goPackageName
       monorepoBasePath metadataOutputDir h =
     (case readLocalContractList env contractListFilePath h of
        ((contracts, Some err), h1) \<Rightarrow>
          (Some (GoError (''Error reading contract list '' @ contractListFilePath @ '': ''
                   @ errorString err)), h1)
      | ((contracts, None), h1) \<Rightarrow>
          if length contracts = 0 then
            (Some (GoError (''No contracts parsable from given contract list: ''
                     @ contractListFilePath)), h1)
          else
            (case mkTempArtifactsDir env h1 of
               ((tempArtifactsDir, err), h2) \<Rightarrow>
                 (case genLocalBindings_run env sourceMapsListStr forgeArtifactsPath
                         goPackageName monorepoBasePath metadataOutputDir tempArtifactsDir
                         contracts h2 of
                    (result, h3) \<Rightarrow>
                      (result, removeTempArtifactsDir env tempArtifactsDir h3))))"

subsection \<open>Etherscan contracts\<close>

text \<open>
  The body of the loop of \<open>genEtherscanBindings\<close>, for one contract. The source-maps
  set that \<open>genEtherscanBindings\<close> builds is never read and is left out.
\<close>

definition genEtherscanBindings_contract ::
  "'sl env \<Rightarrow> string \<Rightarrow> string \<Rightarrow> string \<Rightarrow> go_int \<Rightarrow> go_int \<Rightarrow> string
     \<Rightarrow> etherscanContract \<Rightarrow> history \<Rightarrow> error option \<times> history" where
  "genEtherscanBindings_contract env etherscanApiKey goPackageName metadataOutputDir
       apiMaxRetries apiRetryDelay tempArtifactsDir contract h =
     (case fetchEtherscanAbi env
             (etherscanGetAbiURLFormat (DeployedAddress contract) etherscanApiKey)
             apiMaxRetries apiRetryDelay
             (h @ [Printf ''Generating bindings and metadata for Etherscan contract: %s''
                     [S (Name contract)]]) of
        (Inl err, h1) \<Rightarrow> (Some err, h1)
      | (Inr abi, h1) \<Rightarrow>
          (case fetchEtherscanBytecode env
                  (etherscanGetBytecodeURLFormat (DeployedAddress contract) etherscanApiKey)
                  h1 of
             (Inl err, h2) \<Rightarrow> (Some err, h2)
           | (Inr bytecode, h2) \<Rightarrow>
               (let contract' = contract\<lparr>Abi := abi, Bytecode := bytecode\<rparr>
                in case writeContractArtifacts env tempArtifactsDir (Name contract')
                          (Abi contract') (Bytecode contract') h2 of
                     (Inl err, h3) \<Rightarrow> (Some err, h3)
                   | (Inr (abiFilePath, bytecodeFilePath), h3) \<Rightarrow>
                       (case genContractBindings env abiFilePath bytecodeFilePath
                               goPackageName (Name contract') h3 of
                          (Some err, h4) \<Rightarrow> (Some err, h4)
                        | (None, h4) \<Rightarrow>
                            writeEtherscanContractMetadata env
                              \<lparr>es_Name = Name contract',
                               es_DeployedBin = Bytecode contract',
                               es_Package = goPackageName\<rparr>
                              metadataOutputDir (Name contract') h4))))"

fun genEtherscanBindings_loop ::
  "'sl env \<Rightarrow> string \<Rightarrow> string \<Rightarrow> string \<Rightarrow> go_int \<Rightarrow> go_int \<Rightarrow> string
     \<Rightarrow> etherscanContract list \<Rightarrow> history \<Rightarrow> error option \<times> history" where
  "genEtherscanBindings_loop env etherscanApiKey goPackageName metadataOutputDir
       apiMaxRetries apiRetryDelay tempArtifactsDir [] h = (None, h)"
| "genEtherscanBindings_loop env etherscanApiKey goPackageName metadataOutputDir
       apiMaxRetries apiRetryDelay tempArtifactsDir (contract # contracts) h =
     (case genEtherscanBindings_contract env etherscanApiKey goPackageName metadataOutputDir
             apiMaxRetries apiRetryDelay tempArtifactsDir contract h of
        (Some err, h') \<Rightarrow> (Some err, h')
      | (None, h') \<Rightarrow>
          genEtherscanBindings_loop env etherscanApiKey goPackageName metadataOutputDir
            apiMaxRetries apiRetryDelay tempArtifactsDir contracts h')"

definition genEtherscanBindings ::
  "'sl env \<Rightarrow> string \<Rightarrow> string \<Rightarrow> string \<Rightarrow> string \<Rightarrow> string \<Rightarrow> go_int \<Rightarrow> go_int \<Rightarrow> history
     \<Rightarrow> error option \<times> history" where
  "genEtherscanBindings env contractListFilePath sourceMapsListStr etherscanApiKey goPackageName
       metadataOutputDir apiMaxRetries apiRetryDelay h =
     (case readEtherscanContractsList env contractListFilePath h of
        ((contracts, Some err), h1) \<Rightarrow>
          (Some (GoError (''Error reading contract list '' @ contractListFilePath @ '': ''
                   @ errorString err)), h1)
      | ((contracts, None), h1) \<Rightarrow>
          if length contracts = 0 then
            (Some (GoError (''No contracts parsable from given contract list: ''
                     @ contractListFilePath)), h1)
          else
            (case mkTempArtifactsDir env h1 of
               ((tempArtifactsDir, err), h2) \<Rightarrow>
                 (case genEtherscanBindings_loop env etherscanApiKey goPackageName
                         metadataOutputDir apiMaxRetries apiRetryDelay tempArtifactsDir
                         contracts h2 of
                    (result, h3) \<Rightarrow>
                      (result, removeTempArtifactsDir env tempArtifactsDir h3))))"

section \<open>Vocabulary of the properties\<close>

text \<open>
  One round of the retry loop on a rate-limited response: the request, the log line and
  the sleep. \<open>afterRounds h url d i\<close> is the history after \<open>i\<close> such rounds, and
  \<open>abiResponse env url d h i\<close> the answer to request \<open>i + 1\<close> of a fetch that started at
  history \<open>h\<close> and was rate-limited \<open>i\<close> times.
\<close>

definition rateLimitRound :: "string \<Rightarrow> duration \<Rightarrow> event list" where
  "rateLimitRound url d =
     [HttpGet url,
      Printf ''Reached API rate limit, waiting %v and trying again'' [D d],
      Sleep d]"

definition afterRounds :: "history \<Rightarrow> string \<Rightarrow> duration \<Rightarrow> nat \<Rightarrow> history" where
  "afterRounds h url d i = h @ concat (replicate i (rateLimitRound url d))"

definition abiResponse ::
  "'sl env \<Rightarrow> string \<Rightarrow> duration \<Rightarrow> history \<Rightarrow> nat \<Rightarrow> error + (error + string)" where
  "abiResponse env url d h i = http_Get env (afterRounds h url d i) url"

text \<open>The rate-limit condition: a body that parses, with the two texts the code tests.\<close>

definition isRateLimit :: "'sl env \<Rightarrow> error + (error + string) \<Rightarrow> bool" where
  "isRateLimit env r =
     (case r of
        Inl err \<Rightarrow> False
      | Inr read \<Rightarrow>
          (case read of
             Inl err \<Rightarrow> False
           | Inr body \<Rightarrow>
               (case json_Unmarshal_api env body of
                  Inl err \<Rightarrow> False
                | Inr a \<Rightarrow> Message a = ''NOTOK'' \<and> Result a = ''Max rate limit reached'')))"

text \<open>
  A response that is neither the rate-limit condition nor a success: the transport
  failed, the body does not parse, or the message of the envelope is not \<open>OK\<close>.
\<close>

definition isTerminalFailure :: "'sl env \<Rightarrow> error + (error + string) \<Rightarrow> bool" where
  "isTerminalFailure env r =
     (case r of
        Inl err \<Rightarrow> True
      | Inr read \<Rightarrow>
          (case read of
             Inl err \<Rightarrow> True
           | Inr body \<Rightarrow>
               (case json_Unmarshal_api env body of
                  Inl err \<Rightarrow> True
                | Inr a \<Rightarrow>
                    Message a \<noteq> ''OK''
                    \<and> (Message a \<noteq> ''NOTOK'' \<or> Result a \<noteq> ''Max rate limit reached''))))"

fun isHttpGet :: "event \<Rightarrow> bool" where
  "isHttpGet (HttpGet url) = True"
| "isHttpGet ev = False"

definition requests :: "history \<Rightarrow> nat" where
  "requests h = length (filter isHttpGet h)"

text \<open>The events that create, truncate or fill a metadata file.\<close>

fun isMetadataWrite :: "event \<Rightarrow> bool" where
  "isMetadataWrite (OpenFile path) = True"
| "isMetadataWrite (Execute path md) = True"
| "isMetadataWrite ev = False"

definition metadataWrites :: "history \<Rightarrow> event list" where
  "metadataWrites h = filter isMetadataWrite h"

text \<open>The key under which the walk files a path that ends in \<open>.json\<close>.\<close>

definition sanitizedName :: "string \<Rightarrow> string" where
  "sanitizedName path = replaceVersion (trimSuffix (filepath_Base path) ''.json'')"

text \<open>The two errors a run can return before it looks at any contract.\<close>

definition emptyManifestMessage :: "string \<Rightarrow> error option \<Rightarrow> string" where
  "emptyManifestMessage contractListFilePath err =
     (case err of
        None \<Rightarrow> ''No contracts parsable from given contract list: '' @ contractListFilePath
      | Some e \<Rightarrow> ''Error reading contract list '' @ contractListFilePath @ '': ''
                    @ errorString e)"

section \<open>A stub environment\<close>

text \<open>
  A small outside world to run the model on: an artifact directory with two artifacts
  named \<open>Foo\<close> and one named \<open>Bar\<close>, a manifest of three local and three remote
  contracts, and a remote API that answers by address.
\<close>

definition rateLimitBody :: string where
  "rateLimitBody = ''status=0 message=NOTOK result=Max rate limit reached''"

definition okBody :: string where
  "okBody = ''status=1 message=OK result=[]''"

definition notOkBody :: string where
  "notOkBody = ''status=0 message=NOTOK result=Invalid API Key''"

definition stub_Unmarshal_api :: "string \<Rightarrow> error + etherscanApiResponse" where
  "stub_Unmarshal_api body =
     (if body = rateLimitBody
      then Inr \<lparr>Status = ''0'', Message = ''NOTOK'', Result = ''Max rate limit reached''\<rparr>
      else if body = okBody
      then Inr \<lparr>Status = ''1'', Message = ''OK'', Result = ''[]''\<rparr>
      else if body = notOkBody
      then Inr \<lparr>Status = ''0'', Message = ''NOTOK'', Result = ''Invalid API Key''\<rparr>
      else Inl (GoError ''invalid character''))"

definition stub_Unmarshal_rpc :: "string \<Rightarrow> error + etherscanRpcApiResponse" where
  "stub_Unmarshal_rpc body =
     (if body = ''rpc'' then Inr \<lparr>JsonRpc = ''2.0'', Id = 1, rpc_Result = ''0x6080''\<rparr>
      else Inl (GoError ''invalid character''))"

definition stub_http_Get :: "history \<Rightarrow> string \<Rightarrow> error + (error + string)" where
  "stub_http_Get h url =
     (if contains url ''0xdead'' then Inl (GoError ''dial tcp: i/o timeout'')
      else if contains url ''getabi'' then Inr (Inr okBody)
      else Inr (Inr ''rpc''))"

definition fooArtifact :: "unit forgeArtifact" where
  "fooArtifact =
     \<lparr>art_Abi = ''[]'', Bytecode_Object = [0x60, 0x80], DeployedBytecode_Object = [0x60, 0x0a],
      DeployedBytecode_SourceMap = ''1:2:3'', StorageLayout = ()\<rparr>"

definition stub_Unmarshal_artifact :: "string \<Rightarrow> error + unit forgeArtifact" where
  "stub_Unmarshal_artifact raw =
     (if raw = ''foo'' then Inr fooArtifact else Inl (GoError ''unexpected end of JSON input''))"

definition stub_ReadFile :: "history \<Rightarrow> string \<Rightarrow> string \<times> error option" where
  "stub_ReadFile h path =
     (if path = ''out/Foo.sol/Foo.json'' \<or> path = ''out/Bar.sol/Bar.json'' then (''foo'', None)
      else ([], Some (NotExistError (''open '' @ path @ '': no such file or directory''))))"

definition stub_Walk :: "history \<Rightarrow> string \<Rightarrow> (string \<times> error option) list" where
  "stub_Walk h root =
     [(''out'', None),
      (''out/Bar.sol'', None),
      (''out/Bar.sol/Bar.json'', None),
      (''out/Foo.sol'', None),
      (''out/Foo.sol/Foo.0.8.15.json'', None),
      (''out/Foo.sol/Foo.0.8.19.json'', None)]"

fun stub_Join :: "string list \<Rightarrow> string" where
  "stub_Join [] = []"
| "stub_Join [x] = x"
| "stub_Join (x # y # ys) = x @ ''/'' @ stub_Join (y # ys)"

text \<open>Lower case for the ASCII names of the stub world.\<close>

definition stub_ToLowerChar :: "char \<Rightarrow> char" where
  "stub_ToLowerChar c =
     (case map_of (zip ''ABCDEFGHIJKLMNOPQRSTUVWXYZ'' ''abcdefghijklmnopqrstuvwxyz'') c of
        Some l \<Rightarrow> l
      | None \<Rightarrow> c)"

definition stub_ToLower :: "string \<Rightarrow> string" where
  "stub_ToLower s = map stub_ToLowerChar s"

definition stub_manifest :: contractsData where
  "stub_manifest =
     \<lparr>Local = [''Foo'', ''Missing'', ''Bar''],
      Etherscan =
        [\<lparr>Name = ''WETH9'', DeployedAddress = ''0xc02a'', PredeployAddress = ''0x4200'',
          Abi = [], Bytecode = []\<rparr>,
         \<lparr>Name = ''Gone'', DeployedAddress = ''0xdead'', PredeployAddress = ''0x4201'',
          Abi = [], Bytecode = []\<rparr>,
         \<lparr>Name = ''Create2'', DeployedAddress = ''0x4e59'', PredeployAddress = ''0x4202'',
          Abi = [], Bytecode = []\<rparr>]\<rparr>"

definition stub_env :: "unit env" where
  "stub_env =
     \<lparr>http_Get = stub_http_Get,
      json_Unmarshal_api = stub_Unmarshal_api,
      json_Unmarshal_rpc = stub_Unmarshal_rpc,
      json_Unmarshal_artifact = stub_Unmarshal_artifact,
      ext_readJSONFile = (\<lambda>h path. (stub_manifest, None)),
      ext_mkTempArtifactsDir = (\<lambda>h. (''/tmp/op-bindings'', None)),
      os_RemoveAll = (\<lambda>h dir. None),
      filepath_Walk = stub_Walk,
      os_ReadFile = stub_ReadFile,
      ext_writeContractArtifacts =
        (\<lambda>h dir name abi bytecode. Inr (dir @ ''/'' @ name @ ''.abi'', dir @ ''/'' @ name @ ''.bin'')),
      ext_genContractBindings = (\<lambda>h abiFilePath bytecodeFilePath pkg name. None),
      ast_CanonicalizeASTIDs = (\<lambda>layout base. layout),
      json_Marshal = (\<lambda>layout. Inr ''{}''),
      os_OpenFile = (\<lambda>h path. None),
      template_Execute = (\<lambda>h path md. None),
      path_Join = stub_Join,
      strconv_Quote = (\<lambda>s. [CHR 0x22] @ s @ [CHR 0x22]),
      strings_ToLower = stub_ToLower\<rparr>"

text \<open>The same world with a remote API that is rate-limited on its first \<open>k\<close> requests.\<close>

definition rateLimited_env :: "nat \<Rightarrow> string \<Rightarrow> unit env" where
  "rateLimited_env k body =
     stub_env\<lparr>http_Get := (\<lambda>h url. if requests h < k then Inr (Inr rateLimitBody)
                                     else Inr (Inr body))\<rparr>"

text \<open>The same world with a JSON encoder that rejects every storage layout.\<close>

definition marshalFails_env :: "unit env" where
  "marshalFails_env =
     stub_env\<lparr>json_Marshal := (\<lambda>layout. Inl (GoError ''json: unsupported value''))\<rparr>"

text \<open>The same world with a manifest that names no contract.\<close>

definition emptyManifest_env :: "unit env" where
  "emptyManifest_env =
     stub_env\<lparr>ext_readJSONFile := (\<lambda>h path. (\<lparr>Local = [], Etherscan = []\<rparr>, None))\<rparr>"

text \<open>The same world where the temporary directory cannot be created.\<close>

definition mkTempFails_env :: "unit env" where
  "mkTempFails_env =
     stub_env\<lparr>ext_mkTempArtifactsDir :=
                (\<lambda>h. ([], Some (GoError ''mkdir /tmp/op-bindings: permission denied'')))\<rparr>"

section \<open>Properties of the remote source resolver\<close>

subsection \<open>The retry loop\<close>

lemma afterRounds_0: "afterRounds h url d 0 = h"
  by (simp add: afterRounds_def)

lemma afterRounds_Suc:
  "afterRounds h url d (Suc i) = afterRounds (h @ rateLimitRound url d) url d i"
  by (simp add: afterRounds_def replicate_app_Cons_same)

lemma requests_Nil: "requests [] = 0"
  by (simp add: requests_def)

lemma requests_append: "requests (h @ h') = requests h + requests h'"
  by (simp add: requests_def)

lemma requests_afterRounds: "requests (afterRounds h url d i) = requests h + i"
  by (induction i arbitrary: h)
     (simp_all add: afterRounds_0 afterRounds_Suc requests_append,
      simp add: requests_def rateLimitRound_def)

lemma isRateLimitD:
  assumes "isRateLimit env r"
  obtains body a where "r = Inr (Inr body)" and "json_Unmarshal_api env body = Inr a"
    and "Message a = ''NOTOK''" and "Result a = ''Max rate limit reached''"
  using assms by (auto simp: isRateLimit_def split: sum.splits)

lemma loop_rate_limit_step:
  assumes "sint retries < sint maxRetries"
      and "isRateLimit env (http_Get env h url)"
  shows "fetchEtherscanAbi_loop env url maxRetries d retries h =
         fetchEtherscanAbi_loop env url maxRetries d (retries + 1) (h @ rateLimitRound url d)"
proof -
  from assms(2) obtain body a where
    r: "http_Get env h url = Inr (Inr body)" "json_Unmarshal_api env body = Inr a"
       "Message a = ''NOTOK''" "Result a = ''Max rate limit reached''"
    by (rule isRateLimitD)
  show ?thesis
    by (subst fetchEtherscanAbi_loop.simps)
       (simp add: assms(1) r fetchEtherscanData_def rateLimitRound_def)
qed

lemma loop_rate_limit_rounds:
  assumes "\<forall>i<k. isRateLimit env (abiResponse env url d h i)"
      and "sint retries + int k \<le> sint maxRetries"
  shows "fetchEtherscanAbi_loop env url maxRetries d retries h =
         fetchEtherscanAbi_loop env url maxRetries d (retries + of_nat k) (afterRounds h url d k)"
  using assms
proof (induction k arbitrary: retries h)
  case 0
  then show ?case by (simp add: afterRounds_0)
next
  case (Suc k)
  have lt: "sint retries < sint maxRetries"
    using Suc.prems(2) by simp
  have first: "isRateLimit env (http_Get env h url)"
    using Suc.prems(1) by (auto simp: abiResponse_def afterRounds_0 dest: spec [of _ 0])
  have rest: "\<forall>i<k. isRateLimit env (abiResponse env url d (h @ rateLimitRound url d) i)"
    using Suc.prems(1) by (auto simp: abiResponse_def afterRounds_Suc dest: spec [of _ "Suc i" for i])
  have bound: "sint (retries + 1) + int k \<le> sint maxRetries"
    using Suc.prems(2) by (simp add: sint_succ_below [OF lt])
  show ?case
    by (simp add: loop_rate_limit_step [OF lt first] Suc.IH [OF rest bound] afterRounds_Suc
                  add.assoc)
qed

lemma loop_exhausted:
  "\<not> sint retries < sint maxRetries \<Longrightarrow>
   fetchEtherscanAbi_loop env url maxRetries d retries h =
     (Inl (GoError (''Failed to fetch ABI after '' @ show_int (sint maxRetries) @ '' retries'')), h)"
  by (subst fetchEtherscanAbi_loop.simps) simp

lemma loop_success_step:
  assumes "sint retries < sint maxRetries"
      and "http_Get env h url = Inr (Inr body)"
      and "json_Unmarshal_api env body = Inr a"
      and "Message a = ''OK''"
  shows "fetchEtherscanAbi_loop env url maxRetries d retries h = (Inr (Result a), h @ [HttpGet url])"
  by (subst fetchEtherscanAbi_loop.simps) (simp add: assms fetchEtherscanData_def)

lemma loop_transport_failure:
  assumes "sint retries < sint maxRetries"
      and "http_Get env h url = Inl err \<or> http_Get env h url = Inr (Inl err)"
  shows "fetchEtherscanAbi_loop env url maxRetries d retries h = (Inl err, h @ [HttpGet url])"
  using assms
  by (subst fetchEtherscanAbi_loop.simps) (auto simp: fetchEtherscanData_def)

lemma loop_parse_failure:
  assumes "sint retries < sint maxRetries"
      and "http_Get env h url = Inr (Inr body)"
      and "json_Unmarshal_api env body = Inl err"
  shows "fetchEtherscanAbi_loop env url maxRetries d retries h =
           (Inl err,
            h @ [HttpGet url,
                 Printf ''Failed to unmarshal as etherscanApiResponse: %v'' [E err]])"
  by (subst fetchEtherscanAbi_loop.simps) (simp add: assms fetchEtherscanData_def)

lemma loop_not_ok:
  assumes "sint retries < sint maxRetries"
      and "http_Get env h url = Inr (Inr body)"
      and "json_Unmarshal_api env body = Inr a"
      and "Message a \<noteq> ''OK''"
      and "Message a \<noteq> ''NOTOK'' \<or> Result a \<noteq> ''Max rate limit reached''"
  shows "fetchEtherscanAbi_loop env url maxRetries d retries h =
           (Inl (GoError (''There was an issue with the Etherscan request to '' @ url
                    @ '', received response: '' @ show_apiResponse a)),
            h @ [HttpGet url])"
  using assms(4,5)
  by (subst fetchEtherscanAbi_loop.simps) (auto simp: assms(1-3) fetchEtherscanData_def)

lemma sint_of_nat_below:
  fixes m :: go_int
  assumes "int k \<le> sint m"
  shows "sint (word_of_nat k :: go_int) = int k"
proof -
  have "sint m < 2 ^ 63" using sint_lt [of m] by simp
  then have "int k < 2 ^ 63" using assms by linarith
  then show ?thesis
    by (simp add: signed_of_nat signed_take_bit_int_eq_self_iff)
qed

lemma loop_after_rate_limits:
  assumes "int k \<le> sint maxRetries"
      and "\<forall>i<k. isRateLimit env (abiResponse env url d h i)"
  shows "fetchEtherscanAbi_loop env url maxRetries d 0 h =
         fetchEtherscanAbi_loop env url maxRetries d (of_nat k) (afterRounds h url d k)"
  using loop_rate_limit_rounds [OF assms(2), of 0 maxRetries] assms(1) by simp

lemma fetch_all_rate_limited:
  assumes "\<forall>i < nat (sint maxRetries). isRateLimit env (abiResponse env url d h i)"
  shows "fetchEtherscanAbi_loop env url maxRetries d 0 h =
           (Inl (GoError (''Failed to fetch ABI after '' @ show_int (sint maxRetries) @ '' retries'')),
            afterRounds h url d (nat (sint maxRetries)))"
proof (cases "0 \<le> sint maxRetries")
  case True
  have "fetchEtherscanAbi_loop env url maxRetries d 0 h =
        fetchEtherscanAbi_loop env url maxRetries d (of_nat (nat (sint maxRetries)))
          (afterRounds h url d (nat (sint maxRetries)))"
    using assms True by (intro loop_after_rate_limits) auto
  also have "\<dots> = fetchEtherscanAbi_loop env url maxRetries d maxRetries
          (afterRounds h url d (nat (sint maxRetries)))"
    using True by simp
  finally show ?thesis by (simp add: loop_exhausted)
next
  case False
  then show ?thesis by (simp add: loop_exhausted afterRounds_0)
qed

text \<open>
  Claim C2, as the code has it. Let every response a fetch with \<open>maxRetries > 0\<close> meets
  be the rate-limit condition, and let \<open>retryDelaySeconds\<close> seconds fit the signed
  64-bit nanosecond count of \<open>time.Duration\<close>. Then \<open>fetchEtherscanAbi\<close> issues exactly
  \<open>maxRetries\<close> requests, sleeps \<open>retryDelaySeconds\<close> seconds after each of them, and
  returns the error \<open>Failed to fetch ABI after N retries\<close> with \<open>N = maxRetries\<close>.
\<close>

theorem fetchEtherscanAbi_rate_limit_exhausts:
  fixes maxRetries retryDelaySeconds :: go_int
  assumes "0 < sint maxRetries"
      and "- (2 ^ 63) \<le> sint retryDelaySeconds * 1000000000"
      and "sint retryDelaySeconds * 1000000000 < 2 ^ 63"
      and "\<forall>i < nat (sint maxRetries).
             isRateLimit env (abiResponse env url (retryDelaySeconds * time_Second) h i)"
  shows "sint (retryDelaySeconds * time_Second) = sint retryDelaySeconds * 1000000000 \<and>
         fetchEtherscanAbi env url maxRetries retryDelaySeconds h =
           (Inl (GoError (''Failed to fetch ABI after '' @ show_int (sint maxRetries)
                    @ '' retries'')),
            h @ concat (replicate (nat (sint maxRetries))
                  [HttpGet url,
                   Printf ''Reached API rate limit, waiting %v and trying again''
                     [D (retryDelaySeconds * time_Second)],
                   Sleep (retryDelaySeconds * time_Second)]))"
proof
  show "sint (retryDelaySeconds * time_Second) = sint retryDelaySeconds * 1000000000"
    using assms(2,3)
    by (simp add: time_Second_def sint_word_mult signed_take_bit_int_eq_self_iff)
  show "fetchEtherscanAbi env url maxRetries retryDelaySeconds h =
           (Inl (GoError (''Failed to fetch ABI after '' @ show_int (sint maxRetries)
                    @ '' retries'')),
            h @ concat (replicate (nat (sint maxRetries))
                  [HttpGet url,
                   Printf ''Reached API rate limit, waiting %v and trying again''
                     [D (retryDelaySeconds * time_Second)],
                   Sleep (retryDelaySeconds * time_Second)]))"
    using fetch_all_rate_limited [OF assms(4)]
    by (simp add: fetchEtherscanAbi_def afterRounds_def rateLimitRound_def)
qed

lemma rateLimited_env_response:
  "abiResponse (rateLimited_env k body) url d [] i =
     (if i < k then Inr (Inr rateLimitBody) else Inr (Inr body))"
  by (simp add: abiResponse_def rateLimited_env_def requests_afterRounds requests_Nil)

lemma rateLimited_env_unmarshal:
  "json_Unmarshal_api (rateLimited_env k body) = stub_Unmarshal_api"
  by (simp add: rateLimited_env_def stub_env_def)

lemma isRateLimit_rateLimitBody:
  "isRateLimit (rateLimited_env k body) (Inr (Inr rateLimitBody))"
  by (simp add: isRateLimit_def rateLimited_env_unmarshal stub_Unmarshal_api_def)

theorem fetchEtherscanAbi_rate_limit_exhausts_witness:
  "0 < sint (3 :: go_int) \<and>
   fetchEtherscanAbi (rateLimited_env 3 okBody) ''u'' 3 2 [] =
     (Inl (GoError ''Failed to fetch ABI after 3 retries''),
      [HttpGet ''u'',
       Printf ''Reached API rate limit, waiting %v and trying again'' [D 2000000000],
       Sleep 2000000000,
       HttpGet ''u'',
       Printf ''Reached API rate limit, waiting %v and trying again'' [D 2000000000],
       Sleep 2000000000,
       HttpGet ''u'',
       Printf ''Reached API rate limit, waiting %v and trying again'' [D 2000000000],
       Sleep 2000000000])"
proof -
  have rl: "\<forall>i < nat (sint (3 :: go_int)).
              isRateLimit (rateLimited_env 3 okBody)
                (abiResponse (rateLimited_env 3 okBody) ''u'' (2 * time_Second) [] i)"
    by (simp add: rateLimited_env_response isRateLimit_rateLimitBody)
  show ?thesis
    using fetchEtherscanAbi_rate_limit_exhausts
            [of 3 2 "rateLimited_env 3 okBody" "''u''" "[]", OF _ _ _ rl]
    by (simp add: time_Second_def show_int_def numeral_3_eq_3)
qed

text \<open>
  Claim C2 as stated, for every \<open>retryDelaySeconds\<close>, fails: 9223372037 seconds are more
  nanoseconds than an \<open>int64\<close> holds, the product wraps, and the code sleeps a negative
  duration, which \<open>time.Sleep\<close> returns from at once.
\<close>

theorem fetchEtherscanAbi_sleep_overflow_counterexample:
  "fetchEtherscanAbi (rateLimited_env 1 okBody) ''u'' 1 9223372037 [] =
     (Inl (GoError ''Failed to fetch ABI after 1 retries''),
      [HttpGet ''u'',
       Printf ''Reached API rate limit, waiting %v and trying again''
         [D (- 9223372036709551616)],
       Sleep (- 9223372036709551616)])
   \<and> sint (- 9223372036709551616 :: duration) \<noteq> sint (9223372037 :: go_int) * 1000000000"
proof -
  have rl: "\<forall>i < nat (sint (1 :: go_int)).
              isRateLimit (rateLimited_env 1 okBody)
                (abiResponse (rateLimited_env 1 okBody) ''u'' (9223372037 * time_Second) [] i)"
    by (simp add: rateLimited_env_response isRateLimit_rateLimitBody)
  have "fetchEtherscanAbi (rateLimited_env 1 okBody) ''u'' 1 9223372037 [] =
     (Inl (GoError ''Failed to fetch ABI after 1 retries''),
      afterRounds [] ''u'' (9223372037 * time_Second) (nat (sint (1 :: go_int))))"
    using fetch_all_rate_limited [OF rl]
    by (simp add: fetchEtherscanAbi_def show_int_def)
  then show ?thesis
    by (simp add: afterRounds_def rateLimitRound_def time_Second_def)
qed


text \<open>
  Claim C5, as the code has it. When every one of the \<open>maxRetries\<close> attempts meets the
  rate-limit condition (or \<open>maxRetries\<close> allows no attempt), the error returned is
  \<open>Failed to fetch ABI after N retries\<close> with \<open>N = maxRetries\<close>: it names the retry
  bound and is the same for every URL.
\<close>

theorem fetchEtherscanAbi_exhausted_error_names_no_url:
  assumes "\<forall>i < nat (sint maxRetries).
             isRateLimit env (abiResponse env url (retryDelaySeconds * time_Second) h i)"
  shows "fst (fetchEtherscanAbi env url maxRetries retryDelaySeconds h) =
           Inl (GoError (''Failed to fetch ABI after '' @ show_int (sint maxRetries)
                  @ '' retries''))"
  using fetch_all_rate_limited [OF assms] by (simp add: fetchEtherscanAbi_def)

theorem fetchEtherscanAbi_exhausted_error_names_no_url_witness:
  "fst (fetchEtherscanAbi (rateLimited_env 2 okBody)
          (etherscanGetAbiURLFormat ''0xc02a'' ''KEY'') 2 1 []) =
     Inl (GoError ''Failed to fetch ABI after 2 retries'')"
proof -
  have rl: "\<forall>i < nat (sint (2 :: go_int)).
              isRateLimit (rateLimited_env 2 okBody)
                (abiResponse (rateLimited_env 2 okBody)
                   (etherscanGetAbiURLFormat ''0xc02a'' ''KEY'') (1 * time_Second) [] i)"
    by (simp add: rateLimited_env_response isRateLimit_rateLimitBody)
  show ?thesis
    using fetchEtherscanAbi_exhausted_error_names_no_url [OF rl]
    by (simp add: show_int_def)
qed

text \<open>
  Claim C5 as stated fails: after two rate-limited attempts the error text holds neither
  the request URL, nor the address in it, nor a contract name.
\<close>

theorem fetchEtherscanAbi_exhausted_error_counterexample:
  "fst (fetchEtherscanAbi (rateLimited_env 2 okBody)
          (etherscanGetAbiURLFormat ''0xc02a'' ''KEY'') 2 1 []) =
     Inl (GoError ''Failed to fetch ABI after 2 retries'')
   \<and> \<not> contains ''Failed to fetch ABI after 2 retries''
           (etherscanGetAbiURLFormat ''0xc02a'' ''KEY'')
   \<and> \<not> contains ''Failed to fetch ABI after 2 retries'' ''0xc02a''
   \<and> \<not> contains ''Failed to fetch ABI after 2 retries'' ''WETH9''"
proof -
  have rl: "\<forall>i < nat (sint (2 :: go_int)).
              isRateLimit (rateLimited_env 2 okBody)
                (abiResponse (rateLimited_env 2 okBody)
                   (etherscanGetAbiURLFormat ''0xc02a'' ''KEY'') (1 * time_Second) [] i)"
    by (simp add: rateLimited_env_response isRateLimit_rateLimitBody)
  have "fst (fetchEtherscanAbi (rateLimited_env 2 okBody)
          (etherscanGetAbiURLFormat ''0xc02a'' ''KEY'') 2 1 []) =
     Inl (GoError ''Failed to fetch ABI after 2 retries'')"
    using fetch_all_rate_limited [OF rl]
    by (simp add: fetchEtherscanAbi_def show_int_def)
  moreover have "\<not> contains ''Failed to fetch ABI after 2 retries''
           (etherscanGetAbiURLFormat ''0xc02a'' ''KEY'')"
    by code_simp
  moreover have "\<not> contains ''Failed to fetch ABI after 2 retries'' ''0xc02a''"
    by code_simp
  moreover have "\<not> contains ''Failed to fetch ABI after 2 retries'' ''WETH9''"
    by code_simp
  ultimately show ?thesis by blast
qed

text \<open>
  Claim C6. For \<open>k < maxRetries\<close>, if the first \<open>k\<close> responses are the rate-limit
  condition and response \<open>k + 1\<close> parses to an envelope with message \<open>OK\<close>, then
  \<open>fetchEtherscanAbi\<close> returns the result field of that envelope and no error, after
  \<open>k + 1\<close> requests.
\<close>

theorem fetchEtherscanAbi_recovers_after_rate_limits:
  assumes "int k < sint maxRetries"
      and "\<forall>i<k. isRateLimit env (abiResponse env url (retryDelaySeconds * time_Second) h i)"
      and "abiResponse env url (retryDelaySeconds * time_Second) h k = Inr (Inr body)"
      and "json_Unmarshal_api env body = Inr a"
      and "Message a = ''OK''"
  shows "fetchEtherscanAbi env url maxRetries retryDelaySeconds h =
           (Inr (Result a),
            afterRounds h url (retryDelaySeconds * time_Second) k @ [HttpGet url])"
proof -
  have le: "int k \<le> sint maxRetries"
    using assms(1) by simp
  have lt: "sint (word_of_nat k :: go_int) < sint maxRetries"
    using assms(1) by (simp add: sint_of_nat_below [OF le])
  have get: "http_Get env (afterRounds h url (retryDelaySeconds * time_Second) k) url
               = Inr (Inr body)"
    using assms(3) by (simp add: abiResponse_def)
  show ?thesis
    by (simp add: fetchEtherscanAbi_def loop_after_rate_limits [OF le assms(2)]
                  loop_success_step [OF lt get assms(4,5)])
qed

theorem fetchEtherscanAbi_recovers_after_rate_limits_witness:
  "int 2 < sint (3 :: go_int) \<and>
   fetchEtherscanAbi (rateLimited_env 2 okBody) ''u'' 3 1 [] =
     (Inr ''[]'',
      [HttpGet ''u'',
       Printf ''Reached API rate limit, waiting %v and trying again'' [D 1000000000],
       Sleep 1000000000,
       HttpGet ''u'',
       Printf ''Reached API rate limit, waiting %v and trying again'' [D 1000000000],
       Sleep 1000000000,
       HttpGet ''u''])"
proof -
  have lt: "int 2 < sint (3 :: go_int)"
    by simp
  have rl: "\<forall>i<2. isRateLimit (rateLimited_env 2 okBody)
              (abiResponse (rateLimited_env 2 okBody) ''u'' (1 * time_Second) [] i)"
    by (simp add: rateLimited_env_response isRateLimit_rateLimitBody)
  have ok: "abiResponse (rateLimited_env 2 okBody) ''u'' (1 * time_Second) [] 2
              = Inr (Inr okBody)"
    by (simp add: rateLimited_env_response)
  have parse: "json_Unmarshal_api (rateLimited_env 2 okBody) okBody
                 = Inr \<lparr>Status = ''1'', Message = ''OK'', Result = ''[]''\<rparr>"
    by (simp add: rateLimited_env_unmarshal stub_Unmarshal_api_def okBody_def rateLimitBody_def)
  show ?thesis
    using fetchEtherscanAbi_recovers_after_rate_limits [OF lt rl ok parse]
    by (simp add: afterRounds_def rateLimitRound_def time_Second_def numeral_2_eq_2)
qed

text \<open>
  Claim C7. For \<open>k < maxRetries\<close>, let the first \<open>k\<close> responses be the rate-limit
  condition and let response \<open>k + 1\<close> be a transport failure, a body that does not parse,
  or an envelope whose message is not \<open>OK\<close> (and that is not the rate-limit condition).
  Then \<open>fetchEtherscanAbi\<close> returns an error on that attempt, and the run ends with
  request \<open>k + 1\<close>: after it comes no sleep and no request, only the log line of a parse
  failure. The error is the transport error, the parse error, or the text that quotes the
  URL and the envelope.
\<close>

theorem fetchEtherscanAbi_terminal_failure_not_retried:
  assumes "int k < sint maxRetries"
      and "\<forall>i<k. isRateLimit env (abiResponse env url (retryDelaySeconds * time_Second) h i)"
      and "isTerminalFailure env (abiResponse env url (retryDelaySeconds * time_Second) h k)"
  shows "(\<forall>err. abiResponse env url (retryDelaySeconds * time_Second) h k = Inl err
              \<or> abiResponse env url (retryDelaySeconds * time_Second) h k = Inr (Inl err)
            \<longrightarrow> fetchEtherscanAbi env url maxRetries retryDelaySeconds h
                = (Inl err,
                   afterRounds h url (retryDelaySeconds * time_Second) k @ [HttpGet url]))
         \<and> (\<forall>body err. abiResponse env url (retryDelaySeconds * time_Second) h k = Inr (Inr body)
                \<and> json_Unmarshal_api env body = Inl err
            \<longrightarrow> fetchEtherscanAbi env url maxRetries retryDelaySeconds h
                = (Inl err,
                   afterRounds h url (retryDelaySeconds * time_Second) k
                     @ [HttpGet url,
                        Printf ''Failed to unmarshal as etherscanApiResponse: %v'' [E err]]))
         \<and> (\<forall>body a. abiResponse env url (retryDelaySeconds * time_Second) h k = Inr (Inr body)
                \<and> json_Unmarshal_api env body = Inr a
            \<longrightarrow> fetchEtherscanAbi env url maxRetries retryDelaySeconds h
                = (Inl (GoError (''There was an issue with the Etherscan request to '' @ url
                           @ '', received response: '' @ show_apiResponse a)),
                   afterRounds h url (retryDelaySeconds * time_Second) k @ [HttpGet url]))
         \<and> (\<exists>e. fst (fetchEtherscanAbi env url maxRetries retryDelaySeconds h) = Inl e)
         \<and> requests (snd (fetchEtherscanAbi env url maxRetries retryDelaySeconds h))
             = requests h + k + 1
         \<and> (snd (fetchEtherscanAbi env url maxRetries retryDelaySeconds h)
               = afterRounds h url (retryDelaySeconds * time_Second) k @ [HttpGet url]
             \<or> (\<exists>err. snd (fetchEtherscanAbi env url maxRetries retryDelaySeconds h)
                   = afterRounds h url (retryDelaySeconds * time_Second) k
                       @ [HttpGet url,
                          Printf ''Failed to unmarshal as etherscanApiResponse: %v'' [E err]]))"
proof -
  let ?d = "retryDelaySeconds * time_Second"
  let ?hk = "afterRounds h url ?d k"
  let ?run = "fetchEtherscanAbi env url maxRetries retryDelaySeconds h"
  have le: "int k \<le> sint maxRetries"
    using assms(1) by simp
  have lt: "sint (word_of_nat k :: go_int) < sint maxRetries"
    using assms(1) by (simp add: sint_of_nat_below [OF le])
  have run: "?run = fetchEtherscanAbi_loop env url maxRetries ?d (word_of_nat k) ?hk"
    by (simp add: fetchEtherscanAbi_def loop_after_rate_limits [OF le assms(2)])
  have count: "requests (?hk @ [HttpGet url]) = requests h + k + 1"
    by (simp add: requests_append requests_afterRounds) (simp add: requests_def)
  have count': "requests (?hk @ [HttpGet url, Printf f args]) = requests h + k + 1" for f args
    by (simp add: requests_append requests_afterRounds) (simp add: requests_def)
  have transport: "?run = (Inl err, ?hk @ [HttpGet url])"
    if "abiResponse env url ?d h k = Inl err \<or> abiResponse env url ?d h k = Inr (Inl err)"
    for err
    using that unfolding run abiResponse_def by (rule loop_transport_failure [OF lt])
  have parse: "?run = (Inl err,
                 ?hk @ [HttpGet url,
                        Printf ''Failed to unmarshal as etherscanApiResponse: %v'' [E err]])"
    if "abiResponse env url ?d h k = Inr (Inr body)" and "json_Unmarshal_api env body = Inl err"
    for body err
    using that unfolding run abiResponse_def by (rule loop_parse_failure [OF lt])
  have not_ok: "?run = (Inl (GoError (''There was an issue with the Etherscan request to '' @ url
                           @ '', received response: '' @ show_apiResponse a)),
                        ?hk @ [HttpGet url])"
    if r: "abiResponse env url ?d h k = Inr (Inr body)" and p: "json_Unmarshal_api env body = Inr a"
    for body a
  proof -
    have "Message a \<noteq> ''OK''"
      and "Message a \<noteq> ''NOTOK'' \<or> Result a \<noteq> ''Max rate limit reached''"
      using assms(3) r p by (simp_all add: isTerminalFailure_def)
    then show ?thesis
      using r p unfolding run abiResponse_def by (intro loop_not_ok [OF lt])
  qed
  have summary: "(\<exists>e. fst ?run = Inl e) \<and> requests (snd ?run) = requests h + k + 1
                 \<and> (snd ?run = ?hk @ [HttpGet url]
                      \<or> (\<exists>err. snd ?run
                            = ?hk @ [HttpGet url,
                                     Printf ''Failed to unmarshal as etherscanApiResponse: %v''
                                       [E err]]))"
  proof (cases "abiResponse env url ?d h k")
    case (Inl err)
    then show ?thesis
      using transport [of err] count by simp
  next
    case (Inr read)
    show ?thesis
    proof (cases read)
      case (Inl err)
      then show ?thesis
        using transport [of err] Inr count by simp
    next
      case body: (Inr body)
      show ?thesis
      proof (cases "json_Unmarshal_api env body")
        case (Inl err)
        then show ?thesis
          using parse [of body err] Inr body count' by auto
      next
        case a: (Inr a)
        then show ?thesis
          using not_ok [of body a] Inr body count by simp
      qed
    qed
  qed
  show ?thesis
    using transport parse not_ok summary by blast
qed

theorem fetchEtherscanAbi_terminal_failure_not_retried_witness:
  "int 1 < sint (3 :: go_int) \<and>
   isTerminalFailure (rateLimited_env 1 notOkBody) (Inr (Inr notOkBody)) \<and>
   fetchEtherscanAbi (rateLimited_env 1 notOkBody) ''u'' 3 1 [] =
     (Inl (GoError (''There was an issue with the Etherscan request to u, ''
              @ ''received response: {0 NOTOK Invalid API Key}'')),
      [HttpGet ''u'',
       Printf ''Reached API rate limit, waiting %v and trying again'' [D 1000000000],
       Sleep 1000000000,
       HttpGet ''u''])"
proof -
  have lt: "int 1 < sint (3 :: go_int)"
    by simp
  have rl: "\<forall>i<1. isRateLimit (rateLimited_env 1 notOkBody)
              (abiResponse (rateLimited_env 1 notOkBody) ''u'' (1 * time_Second) [] i)"
    by (simp add: rateLimited_env_response isRateLimit_rateLimitBody)
  have parse: "json_Unmarshal_api (rateLimited_env 1 notOkBody) notOkBody
                 = Inr \<lparr>Status = ''0'', Message = ''NOTOK'', Result = ''Invalid API Key''\<rparr>"
    by (simp add: rateLimited_env_unmarshal stub_Unmarshal_api_def notOkBody_def okBody_def
                  rateLimitBody_def)
  have bad: "isTerminalFailure (rateLimited_env 1 notOkBody) (Inr (Inr notOkBody))"
    using parse by (simp add: isTerminalFailure_def)
  have resp: "abiResponse (rateLimited_env 1 notOkBody) ''u'' (1 * time_Second) [] 1
                = Inr (Inr notOkBody)"
    by (simp add: rateLimited_env_response)
  have fail: "isTerminalFailure (rateLimited_env 1 notOkBody)
                (abiResponse (rateLimited_env 1 notOkBody) ''u'' (1 * time_Second) [] 1)"
    using bad by (simp add: rateLimited_env_response)
  have "fetchEtherscanAbi (rateLimited_env 1 notOkBody) ''u'' 3 1 []
        = (Inl (GoError (''There was an issue with the Etherscan request to '' @ ''u''
                   @ '', received response: ''
                   @ show_apiResponse
                       \<lparr>Status = ''0'', Message = ''NOTOK'', Result = ''Invalid API Key''\<rparr>)),
           afterRounds [] ''u'' (1 * time_Second) 1 @ [HttpGet ''u''])"
    using fetchEtherscanAbi_terminal_failure_not_retried [OF lt rl fail] resp parse by blast
  then show ?thesis
    using lt bad
    by (simp add: afterRounds_def rateLimitRound_def time_Second_def show_apiResponse_def)
qed

section \<open>Properties of the local source resolver and of the pipelines\<close>

subsection \<open>The artifact path index\<close>

lemma walkFn_keeps_entry:
  "artifactPaths name = Some p \<Longrightarrow> fst (walkFn artifactPaths path err) name = Some p"
  by (auto simp: walkFn_def Let_def split: option.splits)

lemma walk_keeps_entry:
  "artifactPaths name = Some p \<Longrightarrow> fst (walk artifactPaths visits) name = Some p"
proof (induction visits arbitrary: artifactPaths)
  case Nil
  then show ?case by simp
next
  case (Cons v visits)
  obtain path err where v: "v = (path, err)"
    by (cases v)
  obtain m' r where step: "walkFn artifactPaths path err = (m', r)"
    by (cases "walkFn artifactPaths path err")
  have kept: "m' name = Some p"
    using walkFn_keeps_entry [of artifactPaths name p path err] Cons.prems step by simp
  show ?case
  proof (cases r)
    case None
    then show ?thesis
      using Cons.IH [of m'] kept v step by simp
  next
    case (Some e)
    then show ?thesis
      using kept v step by simp
  qed
qed

lemma walkFn_first_entry:
  assumes "artifactPaths (sanitizedName path) = None" and "hasSuffix path ''.json''"
  shows "walkFn artifactPaths path None = (artifactPaths(sanitizedName path \<mapsto> path), None)"
  using assms by (simp add: walkFn_def sanitizedName_def Let_def)

lemma walkFn_other_name:
  assumes "artifactPaths name = None"
      and "hasSuffix path ''.json'' \<longrightarrow> sanitizedName path \<noteq> name"
  shows "walkFn artifactPaths path None = (m', r) \<Longrightarrow> m' name = None \<and> r = None"
  using assms by (auto simp: walkFn_def sanitizedName_def Let_def split: if_splits)

lemma walk_first_wins:
  assumes "\<forall>(path, err) \<in> set before.
             err = None \<and> (hasSuffix path ''.json'' \<longrightarrow> sanitizedName path \<noteq> name)"
      and "hasSuffix first ''.json''" and "sanitizedName first = name"
      and "artifactPaths name = None"
  shows "fst (walk artifactPaths (before @ (first, None) # later)) name = Some first"
  using assms
proof (induction before arbitrary: artifactPaths)
  case Nil
  have "walkFn artifactPaths first None = (artifactPaths(name \<mapsto> first), None)"
    using walkFn_first_entry [of artifactPaths first] Nil.prems by simp
  then show ?case
    using walk_keeps_entry [of "artifactPaths(name \<mapsto> first)" name first later] by simp
next
  case (Cons v before)
  obtain path err where v: "v = (path, err)"
    by (cases v)
  have err: "err = None"
    and other: "hasSuffix path ''.json'' \<longrightarrow> sanitizedName path \<noteq> name"
    using Cons.prems(1) v by auto
  obtain m' r where step: "walkFn artifactPaths path None = (m', r)"
    by (cases "walkFn artifactPaths path None")
  have still: "m' name = None" and ok: "r = None"
    using walkFn_other_name [of artifactPaths name path m' r] Cons.prems(4) other step
    by simp_all
  have rest: "\<forall>(path, err) \<in> set before.
                err = None \<and> (hasSuffix path ''.json'' \<longrightarrow> sanitizedName path \<noteq> name)"
    using Cons.prems(1) by simp
  show ?case
    using Cons.IH [of m'] rest Cons.prems(2,3) still v err step ok by simp
qed

text \<open>
  Claim C1 says that of several artifacts with one sanitized name the index keeps the
  path met last, and so do the comments of \<open>getContractArtifactPaths\<close>. The code
  stores a path only under a name the map does not hold yet, so the path met first
  stays (\<open>walk_first_wins\<close>). On the stub directory the walk meets
  \<open>Foo.0.8.15.json\<close> before \<open>Foo.0.8.19.json\<close>, both sanitized to \<open>Foo\<close>, and the
  index holds the former.
\<close>

theorem getContractArtifactPaths_collision_keeps_first:
  "sanitizedName ''out/Foo.sol/Foo.0.8.15.json'' = ''Foo''
   \<and> sanitizedName ''out/Foo.sol/Foo.0.8.19.json'' = ''Foo''
   \<and> filepath_Walk stub_env [] ''out'' =
        [(''out'', None),
         (''out/Bar.sol'', None),
         (''out/Bar.sol/Bar.json'', None),
         (''out/Foo.sol'', None),
         (''out/Foo.sol/Foo.0.8.15.json'', None),
         (''out/Foo.sol/Foo.0.8.19.json'', None)]
   \<and> snd (fst (getContractArtifactPaths stub_env ''out'' [])) = None
   \<and> fst (fst (getContractArtifactPaths stub_env ''out'' [])) ''Foo''
        = Some ''out/Foo.sol/Foo.0.8.15.json''"
  by code_simp


subsection \<open>Source-map gating\<close>

text \<open>
  Claim C4. The layout that is marshalled was itself decoded from the artifact's JSON, and
  \<open>encoding/json\<close> encodes such a value, so \<open>json_Marshal\<close> answers with \<open>Inr\<close>. Then
  \<open>canonicalizeStorageLayout\<close> returns the artifact's raw deployed-bytecode source map
  unchanged for a contract name in the source-maps set and the empty string for any other
  name, whatever source map the artifact holds, together with the escaped layout and no
  error.
\<close>

theorem canonicalizeStorageLayout_source_map_gate:
  assumes "json_Marshal env (ast_CanonicalizeASTIDs env (StorageLayout forgeArtifact)
             monorepoBasePath) = Inr canonicalStorageJson"
  shows "canonicalizeStorageLayout env forgeArtifact monorepoBasePath sourceMapsSet contractName =
           (if contractName \<in> sourceMapsSet
            then DeployedBytecode_SourceMap forgeArtifact else [],
            escapeQuotes canonicalStorageJson, None)"
  using assms by (simp add: canonicalizeStorageLayout_def)

lemma stub_env_marshal: "json_Marshal stub_env layout = Inr ''{}''"
  by (simp add: stub_env_def)

theorem canonicalizeStorageLayout_source_map_gate_witness:
  "canonicalizeStorageLayout stub_env fooArtifact ''/repo'' {''Foo''} ''Foo''
     = (''1:2:3'', ''{}'', None)
   \<and> canonicalizeStorageLayout stub_env fooArtifact ''/repo'' {''Foo''} ''Bar''
     = ([], ''{}'', None)"
  using canonicalizeStorageLayout_source_map_gate
          [of stub_env fooArtifact "''/repo''" "''{}''" "{''Foo''}" "''Foo''", OF stub_env_marshal]
        canonicalizeStorageLayout_source_map_gate
          [of stub_env fooArtifact "''/repo''" "''{}''" "{''Foo''}" "''Bar''", OF stub_env_marshal]
  by (simp add: fooArtifact_def escapeQuotes_def)

subsection \<open>The manifest\<close>

lemma prefix_contains: "prefix sub s \<Longrightarrow> contains s sub"
  by (cases s) auto

lemma contains_append_left: "contains s sub \<Longrightarrow> contains (pre @ s) sub"
  by (induction pre) auto

lemma contains_infix: "contains (pre @ sub @ post) sub"
  by (intro contains_append_left prefix_contains) simp

lemma contains_tail: "contains (pre @ sub) sub"
  using contains_infix [of pre sub "[]"] by simp

lemma emptyManifestMessage_names_path:
  "contains (emptyManifestMessage contractListFilePath err) contractListFilePath"
proof (cases err)
  case None
  then show ?thesis
    by (simp only: emptyManifestMessage_def option.case contains_tail)
next
  case (Some e)
  then show ?thesis
    by (simp only: emptyManifestMessage_def option.case contains_infix)
qed

lemma genLocalBindings_empty_manifest:
  assumes "ext_readJSONFile env h contractListFilePath = (data, err)" and "Local data = []"
  shows "genLocalBindings env contractListFilePath sourceMapsListStr forgeArtifactsPath
           goPackageName monorepoBasePath metadataOutputDir h
         = (Some (GoError (emptyManifestMessage contractListFilePath err)),
            h @ [ReadJSONFile contractListFilePath])"
  using assms
  by (cases err)
     (simp_all add: genLocalBindings_def readLocalContractList_def emptyManifestMessage_def)

lemma genEtherscanBindings_empty_manifest:
  assumes "ext_readJSONFile env h contractListFilePath = (data, err)" and "Etherscan data = []"
  shows "genEtherscanBindings env contractListFilePath sourceMapsListStr etherscanApiKey
           goPackageName metadataOutputDir apiMaxRetries apiRetryDelay h
         = (Some (GoError (emptyManifestMessage contractListFilePath err)),
            h @ [ReadJSONFile contractListFilePath])"
  using assms
  by (cases err)
     (simp_all add: genEtherscanBindings_def readEtherscanContractsList_def
                    emptyManifestMessage_def)

text \<open>
  Claim C8. When the manifest yields no local contract, \<open>genLocalBindings\<close> returns an
  error whose text holds the contract-list path, and the only call it has made is the read
  of the manifest: no contract is processed and no file is written. The same holds for
  \<open>genEtherscanBindings\<close> and a manifest without remote contracts.
\<close>

theorem empty_manifest_is_fatal:
  "(Local (fst (ext_readJSONFile env h contractListFilePath)) = [] \<longrightarrow>
      (\<exists>msg. genLocalBindings env contractListFilePath sourceMapsListStr forgeArtifactsPath
                 goPackageName monorepoBasePath metadataOutputDir h
               = (Some (GoError msg), h @ [ReadJSONFile contractListFilePath])
             \<and> contains msg contractListFilePath))
   \<and> (Etherscan (fst (ext_readJSONFile env h contractListFilePath)) = [] \<longrightarrow>
      (\<exists>msg. genEtherscanBindings env contractListFilePath sourceMapsListStr etherscanApiKey
                 goPackageName metadataOutputDir apiMaxRetries apiRetryDelay h
               = (Some (GoError msg), h @ [ReadJSONFile contractListFilePath])
             \<and> contains msg contractListFilePath))"
proof -
  obtain data err where read: "ext_readJSONFile env h contractListFilePath = (data, err)"
    by (cases "ext_readJSONFile env h contractListFilePath")
  have data: "fst (ext_readJSONFile env h contractListFilePath) = data"
    using read by simp
  show ?thesis
    unfolding data
    using genLocalBindings_empty_manifest [OF read]
          genEtherscanBindings_empty_manifest [OF read]
          emptyManifestMessage_names_path [of contractListFilePath err]
    by blast
qed

theorem empty_manifest_is_fatal_witness:
  "Local (fst (ext_readJSONFile emptyManifest_env [] ''artifacts.json'')) = []
   \<and> Etherscan (fst (ext_readJSONFile emptyManifest_env [] ''artifacts.json'')) = []
   \<and> (\<exists>msg. genLocalBindings emptyManifest_env ''artifacts.json'' ''Foo'' ''out'' ''bindings''
                ''/repo'' ''bindings'' []
              = (Some (GoError msg), [ReadJSONFile ''artifacts.json''])
            \<and> contains msg ''artifacts.json'')
   \<and> (\<exists>msg. genEtherscanBindings emptyManifest_env ''artifacts.json'' ''Foo'' ''KEY''
                ''bindings'' ''bindings'' 3 2 []
              = (Some (GoError msg), [ReadJSONFile ''artifacts.json''])
            \<and> contains msg ''artifacts.json'')"
proof -
  have none: "Local (fst (ext_readJSONFile emptyManifest_env [] ''artifacts.json'')) = []"
             "Etherscan (fst (ext_readJSONFile emptyManifest_env [] ''artifacts.json'')) = []"
    by (simp_all add: emptyManifest_env_def)
  show ?thesis
    using none
          empty_manifest_is_fatal
            [of emptyManifest_env "[]" "''artifacts.json''" "''Foo''" "''out''" "''bindings''"
                "''/repo''" "''bindings''" "''KEY''" 3 2]
    by simp
qed


subsection \<open>Fail-fast loops\<close>

lemma genLocalBindings_loop_append:
  "genLocalBindings_loop env forgeArtifactsPath goPackageName monorepoBasePath metadataOutputDir
     tempArtifactsDir contractArtifactPaths sourceMapsSet (pre @ post) h =
   (case genLocalBindings_loop env forgeArtifactsPath goPackageName monorepoBasePath
           metadataOutputDir tempArtifactsDir contractArtifactPaths sourceMapsSet pre h of
      (Some err, h') \<Rightarrow> (Some err, h')
    | (None, h') \<Rightarrow>
        genLocalBindings_loop env forgeArtifactsPath goPackageName monorepoBasePath
          metadataOutputDir tempArtifactsDir contractArtifactPaths sourceMapsSet post h')"
  by (induction pre arbitrary: h) (auto split: prod.splits option.splits)

lemma genLocalBindings_loop_fail_fast:
  assumes "genLocalBindings_loop env forgeArtifactsPath goPackageName monorepoBasePath
             metadataOutputDir tempArtifactsDir contractArtifactPaths sourceMapsSet pre h
           = (None, h1)"
      and "genLocalBindings_contract env forgeArtifactsPath goPackageName monorepoBasePath
             metadataOutputDir tempArtifactsDir contractArtifactPaths sourceMapsSet
             contractName h1 = (Some err, h2)"
  shows "genLocalBindings_loop env forgeArtifactsPath goPackageName monorepoBasePath
           metadataOutputDir tempArtifactsDir contractArtifactPaths sourceMapsSet
           (pre @ contractName # post) h = (Some err, h2)"
  using assms by (simp add: genLocalBindings_loop_append)

lemma genEtherscanBindings_loop_append:
  "genEtherscanBindings_loop env etherscanApiKey goPackageName metadataOutputDir apiMaxRetries
     apiRetryDelay tempArtifactsDir (pre @ post) h =
   (case genEtherscanBindings_loop env etherscanApiKey goPackageName metadataOutputDir
           apiMaxRetries apiRetryDelay tempArtifactsDir pre h of
      (Some err, h') \<Rightarrow> (Some err, h')
    | (None, h') \<Rightarrow>
        genEtherscanBindings_loop env etherscanApiKey goPackageName metadataOutputDir
          apiMaxRetries apiRetryDelay tempArtifactsDir post h')"
  by (induction pre arbitrary: h) (auto split: prod.splits option.splits)

lemma genEtherscanBindings_loop_fail_fast:
  assumes "genEtherscanBindings_loop env etherscanApiKey goPackageName metadataOutputDir
             apiMaxRetries apiRetryDelay tempArtifactsDir pre h = (None, h1)"
      and "genEtherscanBindings_contract env etherscanApiKey goPackageName metadataOutputDir
             apiMaxRetries apiRetryDelay tempArtifactsDir contract h1 = (Some err, h2)"
  shows "genEtherscanBindings_loop env etherscanApiKey goPackageName metadataOutputDir
           apiMaxRetries apiRetryDelay tempArtifactsDir (pre @ contract # post) h
         = (Some err, h2)"
  using assms by (simp add: genEtherscanBindings_loop_append)

lemma metadataWrites_removeTempArtifactsDir:
  "metadataWrites (removeTempArtifactsDir env tempArtifactsDir h) = metadataWrites h"
  by (simp add: removeTempArtifactsDir_def metadataWrites_def split: option.splits)

lemma genLocalBindings_fail_fast:
  assumes "ext_readJSONFile env h contractListFilePath = (data, None)"
      and "Local data = pre @ contractName # post"
      and "ext_mkTempArtifactsDir env (h @ [ReadJSONFile contractListFilePath])
           = (tempArtifactsDir, tempErr)"
      and "walk Map.empty
             (filepath_Walk env (h @ [ReadJSONFile contractListFilePath, MkTempArtifactsDir])
                forgeArtifactsPath)
           = (contractArtifactPaths, None)"
      and "genLocalBindings_loop env forgeArtifactsPath goPackageName monorepoBasePath
             metadataOutputDir tempArtifactsDir contractArtifactPaths
             (set (split_comma sourceMapsListStr)) pre
             (h @ [ReadJSONFile contractListFilePath, MkTempArtifactsDir,
                   Walk forgeArtifactsPath])
           = (None, h1)"
      and "genLocalBindings_contract env forgeArtifactsPath goPackageName monorepoBasePath
             metadataOutputDir tempArtifactsDir contractArtifactPaths
             (set (split_comma sourceMapsListStr)) contractName h1 = (Some err, h2)"
  shows "genLocalBindings env contractListFilePath sourceMapsListStr forgeArtifactsPath
           goPackageName monorepoBasePath metadataOutputDir h
         = (Some err, removeTempArtifactsDir env tempArtifactsDir h2)"
  using assms(1-4) genLocalBindings_loop_fail_fast [OF assms(5,6), of post]
  by (simp add: genLocalBindings_def readLocalContractList_def mkTempArtifactsDir_def
                genLocalBindings_run_def getContractArtifactPaths_def)

lemma genEtherscanBindings_fail_fast:
  assumes "ext_readJSONFile env h contractListFilePath = (data, None)"
      and "Etherscan data = pre @ contract # post"
      and "ext_mkTempArtifactsDir env (h @ [ReadJSONFile contractListFilePath])
           = (tempArtifactsDir, tempErr)"
      and "genEtherscanBindings_loop env etherscanApiKey goPackageName metadataOutputDir
             apiMaxRetries apiRetryDelay tempArtifactsDir pre
             (h @ [ReadJSONFile contractListFilePath, MkTempArtifactsDir])
           = (None, h1)"
      and "genEtherscanBindings_contract env etherscanApiKey goPackageName metadataOutputDir
             apiMaxRetries apiRetryDelay tempArtifactsDir contract h1 = (Some err, h2)"
  shows "genEtherscanBindings env contractListFilePath sourceMapsListStr etherscanApiKey
           goPackageName metadataOutputDir apiMaxRetries apiRetryDelay h
         = (Some err, removeTempArtifactsDir env tempArtifactsDir h2)"
  using assms(1-3) genEtherscanBindings_loop_fail_fast [OF assms(4,5), of post]
  by (simp add: genEtherscanBindings_def readEtherscanContractsList_def mkTempArtifactsDir_def)


text \<open>
  Claim C3. Let the contracts before \<open>contractName\<close> be processed without error up to
  history \<open>h1\<close>, and let the processing of \<open>contractName\<close> return the error \<open>err\<close> at
  history \<open>h2\<close>. Then the run returns \<open>err\<close>; after \<open>h2\<close> it only removes the
  temporary directory, so the metadata files opened or written in the whole run are those
  of \<open>h2\<close>, whatever contracts follow in the list. Likewise for \<open>genEtherscanBindings\<close>.
\<close>

theorem terminal_error_aborts_run:
  "(ext_readJSONFile env h contractListFilePath = (data, None)
    \<and> Local data = pre @ contractName # post
    \<and> ext_mkTempArtifactsDir env (h @ [ReadJSONFile contractListFilePath])
        = (tempArtifactsDir, tempErr)
    \<and> walk Map.empty
          (filepath_Walk env (h @ [ReadJSONFile contractListFilePath, MkTempArtifactsDir])
             forgeArtifactsPath)
        = (contractArtifactPaths, None)
    \<and> genLocalBindings_loop env forgeArtifactsPath goPackageName monorepoBasePath
          metadataOutputDir tempArtifactsDir contractArtifactPaths
          (set (split_comma sourceMapsListStr)) pre
          (h @ [ReadJSONFile contractListFilePath, MkTempArtifactsDir, Walk forgeArtifactsPath])
        = (None, h1)
    \<and> genLocalBindings_contract env forgeArtifactsPath goPackageName monorepoBasePath
          metadataOutputDir tempArtifactsDir contractArtifactPaths
          (set (split_comma sourceMapsListStr)) contractName h1 = (Some err, h2)
    \<longrightarrow>
      genLocalBindings env contractListFilePath sourceMapsListStr forgeArtifactsPath
        goPackageName monorepoBasePath metadataOutputDir h
      = (Some err, removeTempArtifactsDir env tempArtifactsDir h2)
      \<and> metadataWrites (snd (genLocalBindings env contractListFilePath sourceMapsListStr
                               forgeArtifactsPath goPackageName monorepoBasePath
                               metadataOutputDir h))
          = metadataWrites h2)
   \<and>
   (ext_readJSONFile env h contractListFilePath = (data, None)
    \<and> Etherscan data = pre' @ contract # post'
    \<and> ext_mkTempArtifactsDir env (h @ [ReadJSONFile contractListFilePath])
        = (tempArtifactsDir, tempErr)
    \<and> genEtherscanBindings_loop env etherscanApiKey goPackageName metadataOutputDir
          apiMaxRetries apiRetryDelay tempArtifactsDir pre'
          (h @ [ReadJSONFile contractListFilePath, MkTempArtifactsDir])
        = (None, h1')
    \<and> genEtherscanBindings_contract env etherscanApiKey goPackageName metadataOutputDir
          apiMaxRetries apiRetryDelay tempArtifactsDir contract h1' = (Some err', h2')
    \<longrightarrow>
      genEtherscanBindings env contractListFilePath sourceMapsListStr etherscanApiKey
        goPackageName metadataOutputDir apiMaxRetries apiRetryDelay h
      = (Some err', removeTempArtifactsDir env tempArtifactsDir h2')
      \<and> metadataWrites (snd (genEtherscanBindings env contractListFilePath sourceMapsListStr
                               etherscanApiKey goPackageName metadataOutputDir apiMaxRetries
                               apiRetryDelay h))
          = metadataWrites h2')"
proof (intro conjI impI; elim conjE)
  assume "ext_readJSONFile env h contractListFilePath = (data, None)"
     and "Local data = pre @ contractName # post"
     and "ext_mkTempArtifactsDir env (h @ [ReadJSONFile contractListFilePath])
          = (tempArtifactsDir, tempErr)"
     and "walk Map.empty
            (filepath_Walk env (h @ [ReadJSONFile contractListFilePath, MkTempArtifactsDir])
               forgeArtifactsPath)
          = (contractArtifactPaths, None)"
     and "genLocalBindings_loop env forgeArtifactsPath goPackageName monorepoBasePath
            metadataOutputDir tempArtifactsDir contractArtifactPaths
            (set (split_comma sourceMapsListStr)) pre
            (h @ [ReadJSONFile contractListFilePath, MkTempArtifactsDir,
                  Walk forgeArtifactsPath])
          = (None, h1)"
     and "genLocalBindings_contract env forgeArtifactsPath goPackageName monorepoBasePath
            metadataOutputDir tempArtifactsDir contractArtifactPaths
            (set (split_comma sourceMapsListStr)) contractName h1 = (Some err, h2)"
  then have run: "genLocalBindings env contractListFilePath sourceMapsListStr
                    forgeArtifactsPath goPackageName monorepoBasePath metadataOutputDir h
                  = (Some err, removeTempArtifactsDir env tempArtifactsDir h2)"
    by (rule genLocalBindings_fail_fast)
  show "genLocalBindings env contractListFilePath sourceMapsListStr forgeArtifactsPath
          goPackageName monorepoBasePath metadataOutputDir h
        = (Some err, removeTempArtifactsDir env tempArtifactsDir h2)"
    by (rule run)
  show "metadataWrites (snd (genLocalBindings env contractListFilePath sourceMapsListStr
                               forgeArtifactsPath goPackageName monorepoBasePath
                               metadataOutputDir h))
        = metadataWrites h2"
    by (simp add: run metadataWrites_removeTempArtifactsDir)
next
  assume "ext_readJSONFile env h contractListFilePath = (data, None)"
     and "Etherscan data = pre' @ contract # post'"
     and "ext_mkTempArtifactsDir env (h @ [ReadJSONFile contractListFilePath])
          = (tempArtifactsDir, tempErr)"
     and "genEtherscanBindings_loop env etherscanApiKey goPackageName metadataOutputDir
            apiMaxRetries apiRetryDelay tempArtifactsDir pre'
            (h @ [ReadJSONFile contractListFilePath, MkTempArtifactsDir])
          = (None, h1')"
     and "genEtherscanBindings_contract env etherscanApiKey goPackageName metadataOutputDir
            apiMaxRetries apiRetryDelay tempArtifactsDir contract h1' = (Some err', h2')"
  then have run: "genEtherscanBindings env contractListFilePath sourceMapsListStr
                    etherscanApiKey goPackageName metadataOutputDir apiMaxRetries
                    apiRetryDelay h
                  = (Some err', removeTempArtifactsDir env tempArtifactsDir h2')"
    by (rule genEtherscanBindings_fail_fast)
  show "genEtherscanBindings env contractListFilePath sourceMapsListStr etherscanApiKey
          goPackageName metadataOutputDir apiMaxRetries apiRetryDelay h
        = (Some err', removeTempArtifactsDir env tempArtifactsDir h2')"
    by (rule run)
  show "metadataWrites (snd (genEtherscanBindings env contractListFilePath sourceMapsListStr
                               etherscanApiKey goPackageName metadataOutputDir apiMaxRetries
                               apiRetryDelay h))
        = metadataWrites h2'"
    by (simp add: run metadataWrites_removeTempArtifactsDir)
qed


theorem terminal_error_aborts_run_witness:
  "fst (genLocalBindings stub_env ''artifacts.json'' ''Foo'' ''out'' ''bindings'' ''/repo''
          ''bindings'' [])
     = Some (GoError (''Cannot find forge-artifact of '' @ [CHR 0x22] @ ''Missing''
               @ [CHR 0x22, CHR 0x0A]))
   \<and> metadataWrites (snd (genLocalBindings stub_env ''artifacts.json'' ''Foo'' ''out''
                            ''bindings'' ''/repo'' ''bindings'' []))
     = [OpenFile ''bindings/foo_more.go'',
        Execute ''bindings/foo_more.go''
          (LocalData \<lparr>lc_Name = ''Foo'', lc_StorageLayout = ''{}'', lc_DeployedBin = ''0x600a'',
                      lc_Package = ''bindings'', lc_DeployedSourceMap = ''1:2:3''\<rparr>)]
   \<and> fst (genEtherscanBindings stub_env ''artifacts.json'' ''Foo'' ''KEY'' ''bindings''
            ''bindings'' 3 2 [])
     = Some (GoError ''dial tcp: i/o timeout'')
   \<and> metadataWrites (snd (genEtherscanBindings stub_env ''artifacts.json'' ''Foo'' ''KEY''
                            ''bindings'' ''bindings'' 3 2 []))
     = [OpenFile ''bindings/weth9_more.go'',
        Execute ''bindings/weth9_more.go''
          (EtherscanData \<lparr>es_Name = ''WETH9'', es_DeployedBin = ''0x6080'',
                          es_Package = ''bindings''\<rparr>)]"
proof -
  let ?paths = "fst (walk Map.empty
                       (filepath_Walk stub_env [ReadJSONFile ''artifacts.json'', MkTempArtifactsDir]
                          ''out''))"
  let ?h0 = "[ReadJSONFile ''artifacts.json'', MkTempArtifactsDir, Walk ''out'']"
  let ?h1 = "snd (genLocalBindings_loop stub_env ''out'' ''bindings'' ''/repo'' ''bindings''
                    ''/tmp/op-bindings'' ?paths (set (split_comma ''Foo'')) [''Foo''] ?h0)"
  let ?h2 = "snd (genLocalBindings_contract stub_env ''out'' ''bindings'' ''/repo'' ''bindings''
                    ''/tmp/op-bindings'' ?paths (set (split_comma ''Foo'')) ''Missing'' ?h1)"
  let ?err = "GoError (''Cannot find forge-artifact of '' @ [CHR 0x22] @ ''Missing''
                @ [CHR 0x22, CHR 0x0A])"
  have manifest: "ext_readJSONFile stub_env [] ''artifacts.json'' = (stub_manifest, None)"
    by (simp add: stub_env_def)
  have names: "Local stub_manifest = [''Foo''] @ ''Missing'' # [''Bar'']"
    by (simp add: stub_manifest_def)
  have tmp: "ext_mkTempArtifactsDir stub_env ([] @ [ReadJSONFile ''artifacts.json''])
               = (''/tmp/op-bindings'', None)"
    by (simp add: stub_env_def)
  have index: "walk Map.empty
                 (filepath_Walk stub_env ([] @ [ReadJSONFile ''artifacts.json'', MkTempArtifactsDir])
                    ''out'')
               = (?paths, None)"
  proof -
    have "snd (walk Map.empty
                 (filepath_Walk stub_env [ReadJSONFile ''artifacts.json'', MkTempArtifactsDir]
                    ''out'')) = None"
      by code_simp
    then show ?thesis by (simp add: prod_eq_iff)
  qed
  have before: "genLocalBindings_loop stub_env ''out'' ''bindings'' ''/repo'' ''bindings''
                  ''/tmp/op-bindings'' ?paths (set (split_comma ''Foo'')) [''Foo'']
                  ([] @ [ReadJSONFile ''artifacts.json'', MkTempArtifactsDir, Walk ''out''])
                = (None, ?h1)"
  proof -
    have "fst (genLocalBindings_loop stub_env ''out'' ''bindings'' ''/repo'' ''bindings''
                 ''/tmp/op-bindings'' ?paths (set (split_comma ''Foo'')) [''Foo''] ?h0) = None"
      by code_simp
    then show ?thesis by (simp add: prod_eq_iff)
  qed
  have failing: "genLocalBindings_contract stub_env ''out'' ''bindings'' ''/repo'' ''bindings''
                   ''/tmp/op-bindings'' ?paths (set (split_comma ''Foo'')) ''Missing'' ?h1
                 = (Some ?err, ?h2)"
  proof -
    have "fst (genLocalBindings_contract stub_env ''out'' ''bindings'' ''/repo'' ''bindings''
                 ''/tmp/op-bindings'' ?paths (set (split_comma ''Foo'')) ''Missing'' ?h1)
          = Some ?err"
      by code_simp
    then show ?thesis by (simp add: prod_eq_iff)
  qed
  have writes: "metadataWrites ?h2 =
                  [OpenFile ''bindings/foo_more.go'',
                   Execute ''bindings/foo_more.go''
                     (LocalData \<lparr>lc_Name = ''Foo'', lc_StorageLayout = ''{}'',
                                 lc_DeployedBin = ''0x600a'', lc_Package = ''bindings'',
                                 lc_DeployedSourceMap = ''1:2:3''\<rparr>)]"
    by code_simp
  let ?g0 = "[ReadJSONFile ''artifacts.json'', MkTempArtifactsDir]"
  let ?weth = "\<lparr>Name = ''WETH9'', DeployedAddress = ''0xc02a'', PredeployAddress = ''0x4200'',
                 Abi = [], Bytecode = []\<rparr>"
  let ?gone = "\<lparr>Name = ''Gone'', DeployedAddress = ''0xdead'', PredeployAddress = ''0x4201'',
                 Abi = [], Bytecode = []\<rparr>"
  let ?create2 = "\<lparr>Name = ''Create2'', DeployedAddress = ''0x4e59'',
                    PredeployAddress = ''0x4202'', Abi = [], Bytecode = []\<rparr>"
  let ?g1 = "snd (genEtherscanBindings_loop stub_env ''KEY'' ''bindings'' ''bindings'' 3 2
                    ''/tmp/op-bindings'' [?weth] ?g0)"
  let ?g2 = "snd (genEtherscanBindings_contract stub_env ''KEY'' ''bindings'' ''bindings'' 3 2
                    ''/tmp/op-bindings'' ?gone ?g1)"
  have remote: "Etherscan stub_manifest = [?weth] @ ?gone # [?create2]"
    by (simp add: stub_manifest_def)
  have before': "genEtherscanBindings_loop stub_env ''KEY'' ''bindings'' ''bindings'' 3 2
                   ''/tmp/op-bindings'' [?weth]
                   ([] @ [ReadJSONFile ''artifacts.json'', MkTempArtifactsDir])
                 = (None, ?g1)"
  proof -
    have "fst (genEtherscanBindings_loop stub_env ''KEY'' ''bindings'' ''bindings'' 3 2
                 ''/tmp/op-bindings'' [?weth] ?g0) = None"
      by code_simp
    then show ?thesis by (simp add: prod_eq_iff)
  qed
  have failing': "genEtherscanBindings_contract stub_env ''KEY'' ''bindings'' ''bindings'' 3 2
                    ''/tmp/op-bindings'' ?gone ?g1
                  = (Some (GoError ''dial tcp: i/o timeout''), ?g2)"
  proof -
    have "fst (genEtherscanBindings_contract stub_env ''KEY'' ''bindings'' ''bindings'' 3 2
                 ''/tmp/op-bindings'' ?gone ?g1) = Some (GoError ''dial tcp: i/o timeout'')"
      by code_simp
    then show ?thesis by (simp add: prod_eq_iff)
  qed
  have writes': "metadataWrites ?g2 =
                   [OpenFile ''bindings/weth9_more.go'',
                    Execute ''bindings/weth9_more.go''
                      (EtherscanData \<lparr>es_Name = ''WETH9'', es_DeployedBin = ''0x6080'',
                                      es_Package = ''bindings''\<rparr>)]"
    by code_simp
  note claim = terminal_error_aborts_run
                 [of stub_env "[]" "''artifacts.json''" stub_manifest "[''Foo'']" "''Missing''"
                     "[''Bar'']" "''/tmp/op-bindings''" None "''out''" ?paths "''bindings''"
                     "''/repo''" "''bindings''" "''Foo''" ?h1 ?err ?h2
                     "[?weth]" ?gone "[?create2]" "''KEY''" 3 2 ?g1
                     "GoError ''dial tcp: i/o timeout''" ?g2]
  have loc: "genLocalBindings stub_env ''artifacts.json'' ''Foo'' ''out'' ''bindings'' ''/repo''
          ''bindings'' []
        = (Some ?err, removeTempArtifactsDir stub_env ''/tmp/op-bindings'' ?h2)
        \<and> metadataWrites (snd (genLocalBindings stub_env ''artifacts.json'' ''Foo'' ''out''
                                 ''bindings'' ''/repo'' ''bindings'' []))
          = metadataWrites ?h2"
    using claim manifest names tmp index before failing by blast
  have rem: "genEtherscanBindings stub_env ''artifacts.json'' ''Foo'' ''KEY'' ''bindings''
          ''bindings'' 3 2 []
        = (Some (GoError ''dial tcp: i/o timeout''),
           removeTempArtifactsDir stub_env ''/tmp/op-bindings'' ?g2)
        \<and> metadataWrites (snd (genEtherscanBindings stub_env ''artifacts.json'' ''Foo'' ''KEY''
                                 ''bindings'' ''bindings'' 3 2 []))
          = metadataWrites ?g2"
    using claim manifest remote tmp before' failing' by blast
  have c1: "fst (genLocalBindings stub_env ''artifacts.json'' ''Foo'' ''out'' ''bindings''
                   ''/repo'' ''bindings'' []) = Some ?err"
    by (rule trans [OF arg_cong [where f = fst, OF loc [THEN conjunct1]] fst_conv])
  have c2: "metadataWrites (snd (genLocalBindings stub_env ''artifacts.json'' ''Foo'' ''out''
                                   ''bindings'' ''/repo'' ''bindings'' []))
            = [OpenFile ''bindings/foo_more.go'',
               Execute ''bindings/foo_more.go''
                 (LocalData \<lparr>lc_Name = ''Foo'', lc_StorageLayout = ''{}'',
                             lc_DeployedBin = ''0x600a'', lc_Package = ''bindings'',
                             lc_DeployedSourceMap = ''1:2:3''\<rparr>)]"
    by (rule trans [OF loc [THEN conjunct2] writes])
  have c3: "fst (genEtherscanBindings stub_env ''artifacts.json'' ''Foo'' ''KEY'' ''bindings''
                   ''bindings'' 3 2 []) = Some (GoError ''dial tcp: i/o timeout'')"
    by (rule trans [OF arg_cong [where f = fst, OF rem [THEN conjunct1]] fst_conv])
  have c4: "metadataWrites (snd (genEtherscanBindings stub_env ''artifacts.json'' ''Foo''
                                   ''KEY'' ''bindings'' ''bindings'' 3 2 []))
            = [OpenFile ''bindings/weth9_more.go'',
               Execute ''bindings/weth9_more.go''
                 (EtherscanData \<lparr>es_Name = ''WETH9'', es_DeployedBin = ''0x6080'',
                                 es_Package = ''bindings''\<rparr>)]"
    by (rule trans [OF rem [THEN conjunct2] writes'])
  show ?thesis
    by (intro conjI) (rule c1 c2 c3 c4)+
qed


subsection \<open>Errors that are not examined\<close>

lemma canonicalizeStorageLayout_error:
  assumes "snd (snd (canonicalizeStorageLayout env forgeArtifact monorepoBasePath sourceMapsSet
                       contractName)) = Some err"
  shows "canonicalizeStorageLayout env forgeArtifact monorepoBasePath sourceMapsSet contractName
         = ([], [], Some err)"
  using assms by (auto simp: canonicalizeStorageLayout_def Let_def split: sum.splits)

text \<open>
  Claim C9. If the artifact of a contract is read, staged and bound without error and
  \<open>canonicalizeStorageLayout\<close> returns an error, the loop body does not return it: it
  opens the metadata file and renders the template on metadata whose storage layout and
  deployed source map are empty, returns no error, and the loop goes on with the next
  contract (given that the file opens and the template renders).
\<close>

theorem genLocalBindings_ignores_canonicalize_error:
  assumes "readForgeArtifact env forgeArtifactsPath contractName contractArtifactPaths
             (h @ [Printf ''Generating bindings and metadata for local contract: %s''
                     [S contractName]])
           = (Inr forgeArtifact, h1)"
      and "writeContractArtifacts env tempArtifactsDir contractName (art_Abi forgeArtifact)
             (hexutil_String (Bytecode_Object forgeArtifact)) h1
           = (Inr (abiFilePath, bytecodeFilePath), h2)"
      and "genContractBindings env abiFilePath bytecodeFilePath goPackageName contractName h2
           = (None, h3)"
      and "snd (snd (canonicalizeStorageLayout env forgeArtifact monorepoBasePath sourceMapsSet
                       contractName)) = Some err"
      and "metaDataFilePath =
             path_Join env [metadataOutputDir, strings_ToLower env contractName @ ''_more.go'']"
      and "contractMetaData =
             \<lparr>lc_Name = contractName, lc_StorageLayout = [],
              lc_DeployedBin = hexutil_String (DeployedBytecode_Object forgeArtifact),
              lc_Package = goPackageName, lc_DeployedSourceMap = []\<rparr>"
      and "os_OpenFile env h3 metaDataFilePath = None"
      and "template_Execute env (h3 @ [OpenFile metaDataFilePath]) metaDataFilePath
             (LocalData contractMetaData) = None"
  shows "genLocalBindings_contract env forgeArtifactsPath goPackageName monorepoBasePath
           metadataOutputDir tempArtifactsDir contractArtifactPaths sourceMapsSet contractName h
         = (None,
            h3 @ [OpenFile metaDataFilePath,
                  Execute metaDataFilePath (LocalData contractMetaData),
                  Printf (''Wrote %s'' @ [CHR 0x27] @ ''s contract metadata to: %s'')
                    [S contractName, S metaDataFilePath],
                  CloseFile metaDataFilePath])
         \<and> genLocalBindings_loop env forgeArtifactsPath goPackageName monorepoBasePath
             metadataOutputDir tempArtifactsDir contractArtifactPaths sourceMapsSet
             (contractName # contracts) h
           = genLocalBindings_loop env forgeArtifactsPath goPackageName monorepoBasePath
               metadataOutputDir tempArtifactsDir contractArtifactPaths sourceMapsSet contracts
               (h3 @ [OpenFile metaDataFilePath,
                      Execute metaDataFilePath (LocalData contractMetaData),
                      Printf (''Wrote %s'' @ [CHR 0x27] @ ''s contract metadata to: %s'')
                        [S contractName, S metaDataFilePath],
                      CloseFile metaDataFilePath])"
proof -
  have step: "genLocalBindings_contract env forgeArtifactsPath goPackageName monorepoBasePath
           metadataOutputDir tempArtifactsDir contractArtifactPaths sourceMapsSet contractName h
         = (None,
            h3 @ [OpenFile metaDataFilePath,
                  Execute metaDataFilePath (LocalData contractMetaData),
                  Printf (''Wrote %s'' @ [CHR 0x27] @ ''s contract metadata to: %s'')
                    [S contractName, S metaDataFilePath],
                  CloseFile metaDataFilePath])"
    using assms(7,8)
    unfolding assms(5,6)
    by (simp add: genLocalBindings_contract_def assms(1-3)
                  canonicalizeStorageLayout_error [OF assms(4)]
                  writeLocalContractMetadata_def writeMetadata_def Let_def)
  show ?thesis
    by (simp add: step)
qed


theorem genLocalBindings_ignores_canonicalize_error_witness:
  "snd (snd (canonicalizeStorageLayout marshalFails_env fooArtifact ''/repo'' {''Foo''} ''Foo''))
     = Some (GoError ''Error marshaling canonical storage: json: unsupported value'')
   \<and> fst (genLocalBindings_contract marshalFails_env ''out'' ''bindings'' ''/repo'' ''bindings''
            ''/tmp/op-bindings'' Map.empty {''Foo''} ''Foo'' []) = None
   \<and> metadataWrites (snd (genLocalBindings_contract marshalFails_env ''out'' ''bindings''
                            ''/repo'' ''bindings'' ''/tmp/op-bindings'' Map.empty {''Foo''}
                            ''Foo'' []))
     = [OpenFile ''bindings/foo_more.go'',
        Execute ''bindings/foo_more.go''
          (LocalData \<lparr>lc_Name = ''Foo'', lc_StorageLayout = [], lc_DeployedBin = ''0x600a'',
                      lc_Package = ''bindings'', lc_DeployedSourceMap = []\<rparr>)]"
proof -
  let ?start = "[] @ [Printf ''Generating bindings and metadata for local contract: %s''
                       [S ''Foo'']]"
  let ?h1 = "snd (readForgeArtifact marshalFails_env ''out'' ''Foo'' Map.empty ?start)"
  let ?h2 = "snd (writeContractArtifacts marshalFails_env ''/tmp/op-bindings'' ''Foo''
                    (art_Abi fooArtifact) (hexutil_String (Bytecode_Object fooArtifact)) ?h1)"
  let ?h3 = "snd (genContractBindings marshalFails_env ''/tmp/op-bindings/Foo.abi''
                    ''/tmp/op-bindings/Foo.bin'' ''bindings'' ''Foo'' ?h2)"
  let ?md = "\<lparr>lc_Name = ''Foo'', lc_StorageLayout = [],
              lc_DeployedBin = hexutil_String (DeployedBytecode_Object fooArtifact),
              lc_Package = ''bindings'', lc_DeployedSourceMap = []\<rparr>"
  let ?path = "path_Join marshalFails_env
                 [''bindings'', strings_ToLower marshalFails_env ''Foo'' @ ''_more.go'']"
  let ?err = "GoError ''Error marshaling canonical storage: json: unsupported value''"
  have read: "readForgeArtifact marshalFails_env ''out'' ''Foo'' Map.empty ?start
              = (Inr fooArtifact, ?h1)"
  proof -
    have "fst (readForgeArtifact marshalFails_env ''out'' ''Foo'' Map.empty ?start)
          = Inr fooArtifact"
      by code_simp
    then show ?thesis by (simp add: prod_eq_iff)
  qed
  have stage: "writeContractArtifacts marshalFails_env ''/tmp/op-bindings'' ''Foo''
                 (art_Abi fooArtifact) (hexutil_String (Bytecode_Object fooArtifact)) ?h1
               = (Inr (''/tmp/op-bindings/Foo.abi'', ''/tmp/op-bindings/Foo.bin''), ?h2)"
    by (simp add: writeContractArtifacts_def marshalFails_env_def stub_env_def)
  have bind: "genContractBindings marshalFails_env ''/tmp/op-bindings/Foo.abi''
                ''/tmp/op-bindings/Foo.bin'' ''bindings'' ''Foo'' ?h2 = (None, ?h3)"
    by (simp add: genContractBindings_def marshalFails_env_def stub_env_def)
  have marshal: "snd (snd (canonicalizeStorageLayout marshalFails_env fooArtifact ''/repo''
                             {''Foo''} ''Foo'')) = Some ?err"
    by (simp add: canonicalizeStorageLayout_def marshalFails_env_def stub_env_def)
  have opened: "os_OpenFile marshalFails_env ?h3 ?path = None"
    by (simp add: marshalFails_env_def stub_env_def)
  have executed: "template_Execute marshalFails_env (?h3 @ [OpenFile ?path]) ?path
                    (LocalData ?md) = None"
    by (simp add: marshalFails_env_def stub_env_def)
  have step: "genLocalBindings_contract marshalFails_env ''out'' ''bindings'' ''/repo''
                ''bindings'' ''/tmp/op-bindings'' Map.empty {''Foo''} ''Foo'' []
              = (None,
                 ?h3 @ [OpenFile ?path, Execute ?path (LocalData ?md),
                        Printf (''Wrote %s'' @ [CHR 0x27] @ ''s contract metadata to: %s'')
                          [S ''Foo'', S ?path],
                        CloseFile ?path])"
    using genLocalBindings_ignores_canonicalize_error
            [OF read stage bind marshal refl refl opened executed, where contracts = "[]"]
    by (rule conjunct1)
  have writes: "metadataWrites
                  (?h3 @ [OpenFile ?path, Execute ?path (LocalData ?md),
                          Printf (''Wrote %s'' @ [CHR 0x27] @ ''s contract metadata to: %s'')
                            [S ''Foo'', S ?path],
                          CloseFile ?path])
                = [OpenFile ''bindings/foo_more.go'',
                   Execute ''bindings/foo_more.go''
                     (LocalData \<lparr>lc_Name = ''Foo'', lc_StorageLayout = [],
                                 lc_DeployedBin = ''0x600a'', lc_Package = ''bindings'',
                                 lc_DeployedSourceMap = []\<rparr>)]"
    by code_simp
  have c1: "fst (genLocalBindings_contract marshalFails_env ''out'' ''bindings'' ''/repo''
                   ''bindings'' ''/tmp/op-bindings'' Map.empty {''Foo''} ''Foo'' []) = None"
    by (rule trans [OF arg_cong [where f = fst, OF step] fst_conv])
  have c2: "metadataWrites (snd (genLocalBindings_contract marshalFails_env ''out'' ''bindings''
                                   ''/repo'' ''bindings'' ''/tmp/op-bindings'' Map.empty
                                   {''Foo''} ''Foo'' []))
            = [OpenFile ''bindings/foo_more.go'',
               Execute ''bindings/foo_more.go''
                 (LocalData \<lparr>lc_Name = ''Foo'', lc_StorageLayout = [],
                             lc_DeployedBin = ''0x600a'', lc_Package = ''bindings'',
                             lc_DeployedSourceMap = []\<rparr>)]"
    by (rule trans [OF arg_cong [where f = "\<lambda>r. metadataWrites (snd r)", OF step]])
       (simp only: snd_conv writes)
  show ?thesis
    by (intro conjI) (rule marshal c1 c2)+
qed


text \<open>No function of the two pipelines but \<open>mkTempArtifactsDir\<close> reads that answer.\<close>

lemma fetchEtherscanAbi_loop_mkTemp:
  "fetchEtherscanAbi_loop (env\<lparr>ext_mkTempArtifactsDir := x\<rparr>) url maxRetries retryDelay
     retries h
   = fetchEtherscanAbi_loop env url maxRetries retryDelay retries h"
proof (induction env url maxRetries retryDelay retries h rule: fetchEtherscanAbi_loop.induct)
  case (1 env url maxRetries retryDelay retries h)
  show ?case
  proof (cases "sint retries < sint maxRetries \<and> isRateLimit env (http_Get env h url)")
    case True
    then have lt: "sint retries < sint maxRetries"
      and rl: "isRateLimit env (http_Get env h url)"
      by simp_all
    from rl obtain body a where
      r: "http_Get env h url = Inr (Inr body)" "json_Unmarshal_api env body = Inr a"
         "Message a = ''NOTOK''" "Result a = ''Max rate limit reached''"
      by (rule isRateLimitD)
    have IH: "fetchEtherscanAbi_loop (env\<lparr>ext_mkTempArtifactsDir := x\<rparr>) url maxRetries
                retryDelay (retries + 1)
                ((h @ [HttpGet url])
                   @ [Printf ''Reached API rate limit, waiting %v and trying again''
                        [D retryDelay], Sleep retryDelay])
              = fetchEtherscanAbi_loop env url maxRetries retryDelay (retries + 1)
                ((h @ [HttpGet url])
                   @ [Printf ''Reached API rate limit, waiting %v and trying again''
                        [D retryDelay], Sleep retryDelay])"
    proof (rule "1.IH" [OF lt _ refl r(2)])
      show "(Inr body, h @ [HttpGet url]) = fetchEtherscanData env url h"
        by (simp add: fetchEtherscanData_def r)
      show "Message a = ''NOTOK'' \<and> Result a = ''Max rate limit reached''"
        by (simp add: r)
    qed
    show ?thesis
      using IH
      by (subst fetchEtherscanAbi_loop.simps, subst (2) fetchEtherscanAbi_loop.simps)
         (simp add: lt r fetchEtherscanData_def)
  next
    case False
    then show ?thesis
      by (subst fetchEtherscanAbi_loop.simps, subst (2) fetchEtherscanAbi_loop.simps)
         (auto simp: fetchEtherscanData_def isRateLimit_def split: sum.splits)
  qed
qed


lemma resolver_mkTemp:
  "fetchEtherscanAbi (env\<lparr>ext_mkTempArtifactsDir := x\<rparr>) = fetchEtherscanAbi env"
  "fetchEtherscanBytecode (env\<lparr>ext_mkTempArtifactsDir := x\<rparr>) = fetchEtherscanBytecode env"
  "readEtherscanContractsList (env\<lparr>ext_mkTempArtifactsDir := x\<rparr>)
     = readEtherscanContractsList env"
  "readLocalContractList (env\<lparr>ext_mkTempArtifactsDir := x\<rparr>) = readLocalContractList env"
  "getContractArtifactPaths (env\<lparr>ext_mkTempArtifactsDir := x\<rparr>)
     = getContractArtifactPaths env"
  "readForgeArtifact (env\<lparr>ext_mkTempArtifactsDir := x\<rparr>) = readForgeArtifact env"
  "canonicalizeStorageLayout (env\<lparr>ext_mkTempArtifactsDir := x\<rparr>)
     = canonicalizeStorageLayout env"
  "writeLocalContractMetadata (env\<lparr>ext_mkTempArtifactsDir := x\<rparr>)
     = writeLocalContractMetadata env"
  "writeEtherscanContractMetadata (env\<lparr>ext_mkTempArtifactsDir := x\<rparr>)
     = writeEtherscanContractMetadata env"
  "writeContractArtifacts (env\<lparr>ext_mkTempArtifactsDir := x\<rparr>) = writeContractArtifacts env"
  "genContractBindings (env\<lparr>ext_mkTempArtifactsDir := x\<rparr>) = genContractBindings env"
  "removeTempArtifactsDir (env\<lparr>ext_mkTempArtifactsDir := x\<rparr>) = removeTempArtifactsDir env"
  by (simp_all add: fun_eq_iff fetchEtherscanAbi_def fetchEtherscanAbi_loop_mkTemp
        fetchEtherscanBytecode_def fetchEtherscanData_def readEtherscanContractsList_def
        readLocalContractList_def getContractArtifactPaths_def readForgeArtifact_def
        parseForgeArtifact_def canonicalizeStorageLayout_def writeLocalContractMetadata_def
        writeEtherscanContractMetadata_def writeMetadata_def writeContractArtifacts_def
        genContractBindings_def removeTempArtifactsDir_def Let_def
      cong: sum.case_cong option.case_cong prod.case_cong if_cong)

lemma contract_mkTemp:
  "genLocalBindings_contract (env\<lparr>ext_mkTempArtifactsDir := x\<rparr>)
     = genLocalBindings_contract env"
  "genEtherscanBindings_contract (env\<lparr>ext_mkTempArtifactsDir := x\<rparr>)
     = genEtherscanBindings_contract env"
  by (simp_all add: fun_eq_iff genLocalBindings_contract_def genEtherscanBindings_contract_def
        resolver_mkTemp Let_def
      cong: sum.case_cong option.case_cong prod.case_cong if_cong)

lemma genLocalBindings_loop_mkTemp:
  "genLocalBindings_loop (env\<lparr>ext_mkTempArtifactsDir := x\<rparr>) forgeArtifactsPath
     goPackageName monorepoBasePath metadataOutputDir tempArtifactsDir contractArtifactPaths
     sourceMapsSet contracts h
   = genLocalBindings_loop env forgeArtifactsPath goPackageName monorepoBasePath
       metadataOutputDir tempArtifactsDir contractArtifactPaths sourceMapsSet contracts h"
  by (induction contracts arbitrary: h)
     (simp_all add: contract_mkTemp split: prod.splits option.splits)

lemma genEtherscanBindings_loop_mkTemp:
  "genEtherscanBindings_loop (env\<lparr>ext_mkTempArtifactsDir := x\<rparr>) etherscanApiKey
     goPackageName metadataOutputDir apiMaxRetries apiRetryDelay tempArtifactsDir contracts h
   = genEtherscanBindings_loop env etherscanApiKey goPackageName metadataOutputDir
       apiMaxRetries apiRetryDelay tempArtifactsDir contracts h"
  by (induction contracts arbitrary: h)
     (simp_all add: contract_mkTemp split: prod.splits option.splits)

lemma genLocalBindings_run_mkTemp:
  "genLocalBindings_run (env\<lparr>ext_mkTempArtifactsDir := x\<rparr>) = genLocalBindings_run env"
  by (simp add: fun_eq_iff genLocalBindings_run_def resolver_mkTemp genLocalBindings_loop_mkTemp
      cong: option.case_cong prod.case_cong)

lemma genLocalBindings_mkTemp_error:
  "genLocalBindings (env\<lparr>ext_mkTempArtifactsDir := (\<lambda>h'. (dir h', err h'))\<rparr>)
     contractListFilePath sourceMapsListStr forgeArtifactsPath goPackageName monorepoBasePath
     metadataOutputDir h
   = genLocalBindings (env\<lparr>ext_mkTempArtifactsDir := (\<lambda>h'. (dir h', None))\<rparr>)
       contractListFilePath sourceMapsListStr forgeArtifactsPath goPackageName monorepoBasePath
       metadataOutputDir h"
  by (simp add: genLocalBindings_def genLocalBindings_run_mkTemp mkTempArtifactsDir_def
        resolver_mkTemp
      cong: option.case_cong prod.case_cong if_cong)

lemma genEtherscanBindings_mkTemp_error:
  "genEtherscanBindings (env\<lparr>ext_mkTempArtifactsDir := (\<lambda>h'. (dir h', err h'))\<rparr>)
     contractListFilePath sourceMapsListStr etherscanApiKey goPackageName metadataOutputDir
     apiMaxRetries apiRetryDelay h
   = genEtherscanBindings (env\<lparr>ext_mkTempArtifactsDir := (\<lambda>h'. (dir h', None))\<rparr>)
       contractListFilePath sourceMapsListStr etherscanApiKey goPackageName metadataOutputDir
       apiMaxRetries apiRetryDelay h"
  by (simp add: genEtherscanBindings_def mkTempArtifactsDir_def resolver_mkTemp
        genEtherscanBindings_loop_mkTemp
      cong: option.case_cong prod.case_cong if_cong)

text \<open>
  Claim C10. Both pipelines run exactly as they run in the world where every error of
  \<open>mkTempArtifactsDir\<close> is replaced by nil: the error is never read, and the run goes on
  with the directory name that came with it.
\<close>

theorem mkTempArtifactsDir_error_never_examined:
  "genLocalBindings env contractListFilePath sourceMapsListStr forgeArtifactsPath goPackageName
     monorepoBasePath metadataOutputDir h
   = genLocalBindings
       (env\<lparr>ext_mkTempArtifactsDir := (\<lambda>h'. (fst (ext_mkTempArtifactsDir env h'), None))\<rparr>)
       contractListFilePath sourceMapsListStr forgeArtifactsPath goPackageName monorepoBasePath
       metadataOutputDir h
   \<and> genEtherscanBindings env contractListFilePath sourceMapsListStr etherscanApiKey
       goPackageName metadataOutputDir apiMaxRetries apiRetryDelay h
     = genEtherscanBindings
         (env\<lparr>ext_mkTempArtifactsDir := (\<lambda>h'. (fst (ext_mkTempArtifactsDir env h'), None))\<rparr>)
         contractListFilePath sourceMapsListStr etherscanApiKey goPackageName metadataOutputDir
         apiMaxRetries apiRetryDelay h"
proof -
  have same: "env\<lparr>ext_mkTempArtifactsDir :=
                  (\<lambda>h'. (fst (ext_mkTempArtifactsDir env h'), snd (ext_mkTempArtifactsDir env h')))\<rparr>
              = env"
    by simp
  show ?thesis
    using genLocalBindings_mkTemp_error
            [where env = env and dir = "\<lambda>h'. fst (ext_mkTempArtifactsDir env h')"
               and err = "\<lambda>h'. snd (ext_mkTempArtifactsDir env h')"]
          genEtherscanBindings_mkTemp_error
            [where env = env and dir = "\<lambda>h'. fst (ext_mkTempArtifactsDir env h')"
               and err = "\<lambda>h'. snd (ext_mkTempArtifactsDir env h')"]
    by (simp only: same)
qed

theorem mkTempArtifactsDir_error_never_examined_witness:
  "ext_mkTempArtifactsDir mkTempFails_env []
     = ([], Some (GoError ''mkdir /tmp/op-bindings: permission denied''))
   \<and> genLocalBindings mkTempFails_env ''artifacts.json'' ''Foo'' ''out'' ''bindings'' ''/repo''
       ''bindings'' []
     = genLocalBindings (mkTempFails_env\<lparr>ext_mkTempArtifactsDir := (\<lambda>h'. ([], None))\<rparr>)
         ''artifacts.json'' ''Foo'' ''out'' ''bindings'' ''/repo'' ''bindings'' []
   \<and> genEtherscanBindings mkTempFails_env ''artifacts.json'' ''Foo'' ''KEY'' ''bindings''
       ''bindings'' 3 2 []
     = genEtherscanBindings (mkTempFails_env\<lparr>ext_mkTempArtifactsDir := (\<lambda>h'. ([], None))\<rparr>)
         ''artifacts.json'' ''Foo'' ''KEY'' ''bindings'' ''bindings'' 3 2 []"
proof -
  have answer: "ext_mkTempArtifactsDir mkTempFails_env
                = (\<lambda>h'. ([], Some (GoError ''mkdir /tmp/op-bindings: permission denied'')))"
    by (simp add: mkTempFails_env_def)
  show ?thesis
    using mkTempArtifactsDir_error_never_examined
            [of mkTempFails_env "''artifacts.json''" "''Foo''" "''out''" "''bindings''"
                "''/repo''" "''bindings''" "[]" "''KEY''" 3 2]
    by (simp add: answer)
qed

text \<open>
  In that world the run does process the contracts: it stages their artifacts under the
  empty directory name and writes the first metadata file of each pipeline.
\<close>

lemma mkTempFails_run_processes_contracts:
  "ext_mkTempArtifactsDir mkTempFails_env []
     = ([], Some (GoError ''mkdir /tmp/op-bindings: permission denied''))
   \<and> metadataWrites (snd (genEtherscanBindings mkTempFails_env ''artifacts.json'' ''Foo''
                            ''KEY'' ''bindings'' ''bindings'' 3 2 []))
     = [OpenFile ''bindings/weth9_more.go'',
        Execute ''bindings/weth9_more.go''
          (EtherscanData \<lparr>es_Name = ''WETH9'', es_DeployedBin = ''0x6080'',
                          es_Package = ''bindings''\<rparr>)]
   \<and> metadataWrites (snd (genLocalBindings mkTempFails_env ''artifacts.json'' ''Foo'' ''out''
                            ''bindings'' ''/repo'' ''bindings'' []))
     = [OpenFile ''bindings/foo_more.go'',
        Execute ''bindings/foo_more.go''
          (LocalData \<lparr>lc_Name = ''Foo'', lc_StorageLayout = ''{}'', lc_DeployedBin = ''0x600a'',
                      lc_Package = ''bindings'', lc_DeployedSourceMap = ''1:2:3''\<rparr>)]"
  by code_simp

end
